theory Spec2Isabelle
  imports Main "HOL-Library.Word"
begin

unbundle bit_operations_syntax

section \<open>Machine state\<close>

type_synonym u8 = "8 word"
type_synonym u16 = "16 word"
type_synonym u32 = "32 word"
type_synonym u64 = "64 word"

text \<open>
  The handlers of \<^verbatim>\<open>system.c\<close> read and write four pieces of global state: the I/O port
  space (through \<^verbatim>\<open>inb\<close>/\<^verbatim>\<open>outb\<close>), physical memory, the global \<^verbatim>\<open>RamSize\<close>, and the
  e820 table \<^verbatim>\<open>e820_list\<close> with its length \<^verbatim>\<open>e820_count\<close>. The stack segment register is
  read once by \<^verbatim>\<open>handle_1587\<close> (\<^verbatim>\<open>GET_SEG(SS)\<close>).
\<close>

record e820entry =
  start :: u64
  size_e :: u64
  type_e :: u32

record machine =
  ports :: "u16 \<Rightarrow> u8"
  mem :: "u32 \<Rightarrow> u8"
  seg_ss :: u16
  RamSize :: u32
  e820_list :: "e820entry list"
  e820_count :: int

text \<open>
  \<^verbatim>\<open>struct bregs\<close>: the caller's registers. The 16-bit and 8-bit registers are views of
  the 32-bit ones, so they are functions on the record, with setters that keep the other
  bits.
\<close>

record bregs =
  eax :: u32
  ebx :: u32
  ecx :: u32
  edx :: u32
  esi :: u32
  edi :: u32
  es :: u16
  flags :: u16

definition ax :: "bregs \<Rightarrow> u16" where "ax r = ucast (eax r)"
definition bx :: "bregs \<Rightarrow> u16" where "bx r = ucast (ebx r)"
definition cx :: "bregs \<Rightarrow> u16" where "cx r = ucast (ecx r)"
definition dx :: "bregs \<Rightarrow> u16" where "dx r = ucast (edx r)"
definition si :: "bregs \<Rightarrow> u16" where "si r = ucast (esi r)"
definition di :: "bregs \<Rightarrow> u16" where "di r = ucast (edi r)"
definition ah :: "bregs \<Rightarrow> u8" where "ah r = ucast (drop_bit 8 (eax r))"

definition low16 :: "u32 \<Rightarrow> u16 \<Rightarrow> u32" where
  "low16 old v = (old AND NOT (mask 16)) OR ucast v"

definition set_ax :: "u16 \<Rightarrow> bregs \<Rightarrow> bregs" where
  "set_ax v r = r\<lparr>eax := low16 (eax r) v\<rparr>"
definition set_bx :: "u16 \<Rightarrow> bregs \<Rightarrow> bregs" where
  "set_bx v r = r\<lparr>ebx := low16 (ebx r) v\<rparr>"
definition set_cx :: "u16 \<Rightarrow> bregs \<Rightarrow> bregs" where
  "set_cx v r = r\<lparr>ecx := low16 (ecx r) v\<rparr>"
definition set_dx :: "u16 \<Rightarrow> bregs \<Rightarrow> bregs" where
  "set_dx v r = r\<lparr>edx := low16 (edx r) v\<rparr>"
definition set_ah :: "u8 \<Rightarrow> bregs \<Rightarrow> bregs" where
  "set_ah v r = r\<lparr>eax := (eax r AND NOT (push_bit 8 (mask 8))) OR push_bit 8 (ucast v)\<rparr>"

text \<open>
  Modelled from the spec: the status macros \<^verbatim>\<open>set_success\<close>, \<^verbatim>\<open>set_code_success\<close> and
  \<^verbatim>\<open>set_code_fail\<close> and the constants \<^verbatim>\<open>F_CF\<close> and \<^verbatim>\<open>RET_EUNSUPPORTED\<close> are declared in
  \<^verbatim>\<open>bregs.h\<close> and \<^verbatim>\<open>biosvar.h\<close>, which are not part of the sources at hand. The spec only
  says that a success or failure code is returned to the caller; the model uses the
  BIOS convention: the carry flag reports failure and \<^verbatim>\<open>ah\<close> holds the code.
\<close>

definition F_CF :: u16 where "F_CF = 1"
definition RET_EUNSUPPORTED :: u8 where "RET_EUNSUPPORTED = 0x86"

definition set_success :: "bregs \<Rightarrow> bregs" where
  "set_success r = r\<lparr>flags := flags r AND NOT F_CF\<rparr>"

definition set_code_success :: "bregs \<Rightarrow> bregs" where
  "set_code_success r = set_success (set_ah 0 r)"

definition set_code_fail :: "bregs \<Rightarrow> u8 \<Rightarrow> bregs" where
  "set_code_fail r code = (set_ah code r)\<lparr>flags := flags r OR F_CF\<rparr>"

definition failed :: "bregs \<Rightarrow> bool" where
  "failed r = (flags r AND F_CF \<noteq> 0)"

section \<open>The A20 gate: \<^verbatim>\<open>set_a20\<close>\<close>

text \<open>
  Modelled from the spec: \<^verbatim>\<open>PORT_A20\<close> and \<^verbatim>\<open>A20_ENABLE_BIT\<close> are declared in \<^verbatim>\<open>ioport.h\<close>,
  which is not part of the sources at hand; the spec speaks of a single hardware status
  register with a gate bit. The values are those of PS/2 System Control port A.
\<close>

definition PORT_A20 :: u16 where "PORT_A20 = 0x92"
definition A20_ENABLE_BIT :: u8 where "A20_ENABLE_BIT = 0x02"

definition inb :: "u16 \<Rightarrow> machine \<Rightarrow> u8" where
  "inb port m = ports m port"

definition outb :: "u8 \<Rightarrow> u16 \<Rightarrow> machine \<Rightarrow> machine" where
  "outb v port m = m\<lparr>ports := (ports m)(port := v)\<rparr>"

text \<open>
  \<^verbatim>\<open>set_a20(cond)\<close>: read the port, set or clear the gate bit, write the port, and return
  whether the bit was set before (a \<^verbatim>\<open>u8\<close> that is 0 or 1).
\<close>

definition set_a20 :: "u8 \<Rightarrow> machine \<Rightarrow> u8 \<times> machine" where
  "set_a20 cond m =
     (let oldval = inb PORT_A20 m;
          newval = (if cond \<noteq> 0 then oldval OR A20_ENABLE_BIT
                    else oldval AND NOT A20_ENABLE_BIT);
          m' = outb newval PORT_A20 m
      in (if oldval AND A20_ENABLE_BIT \<noteq> 0 then 1 else 0, m'))"

definition a20_enabled :: "machine \<Rightarrow> bool" where
  "a20_enabled m = (inb PORT_A20 m AND A20_ENABLE_BIT \<noteq> 0)"

section \<open>Extended-memory size queries: \<^verbatim>\<open>handle_1588\<close> and \<^verbatim>\<open>handle_15e801\<close>\<close>

text \<open>
  \<^verbatim>\<open>rs\<close> is a \<^verbatim>\<open>u32\<close>, so the comparisons, the subtractions and the divisions are unsigned
  32-bit operations, and the stores to the 16-bit registers keep the low 16 bits.
\<close>

definition handle_1588 :: "machine \<Rightarrow> bregs \<Rightarrow> bregs" where
  "handle_1588 m regs =
     (let rs = RamSize m;
          regs1 = (if rs > 64 * 1024 * 1024 then set_ax (63 * 1024) regs
                   else set_ax (ucast ((rs - 1 * 1024 * 1024) div 1024)) regs)
      in set_success regs1)"

definition handle_15e801 :: "machine \<Rightarrow> bregs \<Rightarrow> bregs" where
  "handle_15e801 m regs =
     (let rs = RamSize m;
          regs1 = (if rs > 16 * 1024 * 1024
                   then set_dx (ucast ((rs - 16 * 1024 * 1024) div (64 * 1024)))
                          (set_cx (15 * 1024) regs)
                   else set_dx 0 (set_cx (ucast ((rs - 1 * 1024 * 1024) div 1024)) regs));
          regs2 = set_ax (cx regs1) regs1;
          regs3 = set_bx (dx regs2) regs2
      in set_success regs3)"

text \<open>
  The size queries as the spec words them, on the number of bytes \<open>R\<close>: the legacy query
  reports \<open>63 * 1024\<close> KiB above 64 MiB and \<open>(R - 1 MiB) / 1024\<close> otherwise; the extended
  query reports \<open>15 * 1024\<close> KiB and \<open>(R - 16 MiB) / 64 KiB\<close> blocks above 16 MiB, and
  \<open>(R - 1 MiB) / 1024\<close> KiB and no block otherwise.
\<close>

definition query_size_legacy :: "nat \<Rightarrow> nat" where
  "query_size_legacy R =
     (if 64 * 1024 * 1024 < R then 63 * 1024 else (R - 1 * 1024 * 1024) div 1024)"

definition query_size_extended :: "nat \<Rightarrow> nat \<times> nat" where
  "query_size_extended R =
     (if 16 * 1024 * 1024 < R then (15 * 1024, (R - 16 * 1024 * 1024) div (64 * 1024))
      else ((R - 1 * 1024 * 1024) div 1024, 0))"

section \<open>Physical memory and far pointers\<close>

text \<open>
  Modelled from the spec: \<^verbatim>\<open>MAKE_FLATPTR\<close>, \<^verbatim>\<open>SET_FARVAR\<close> and \<^verbatim>\<open>memcpy_far\<close> are declared in
  \<^verbatim>\<open>farptr.h\<close> and \<^verbatim>\<open>util.h\<close>, which are not part of the sources at hand; the spec takes
  the memory copy across segments as a primitive. A far pointer \<^verbatim>\<open>seg:off\<close> names the
  physical address \<^verbatim>\<open>seg * 16 + off\<close>; stores are little-endian; \<^verbatim>\<open>memcpy_far\<close> moves bytes
  one at a time to \<^verbatim>\<open>seg:off\<close>, \<^verbatim>\<open>seg:off+1\<close>, ... with a 16-bit offset.
\<close>

definition MAKE_FLATPTR :: "u16 \<Rightarrow> u32 \<Rightarrow> u32" where
  "MAKE_FLATPTR seg off = push_bit 4 (ucast seg) + off"

definition le_bytes :: "nat \<Rightarrow> 'a::len word \<Rightarrow> u8 list" where
  "le_bytes n w = map (\<lambda>i. ucast (drop_bit (8 * i) w)) [0..<n]"

fun write_bytes :: "u32 \<Rightarrow> u8 list \<Rightarrow> (u32 \<Rightarrow> u8) \<Rightarrow> (u32 \<Rightarrow> u8)" where
  "write_bytes a [] mm = mm"
| "write_bytes a (b # bs) mm = write_bytes (a + 1) bs (mm(a := b))"

definition SET_FARVAR64 :: "u16 \<Rightarrow> u32 \<Rightarrow> u64 \<Rightarrow> (u32 \<Rightarrow> u8) \<Rightarrow> (u32 \<Rightarrow> u8)" where
  "SET_FARVAR64 seg off v mm = write_bytes (MAKE_FLATPTR seg off) (le_bytes 8 v) mm"

fun memcpy_far :: "u16 \<Rightarrow> u16 \<Rightarrow> u8 list \<Rightarrow> (u32 \<Rightarrow> u8) \<Rightarrow> (u32 \<Rightarrow> u8)" where
  "memcpy_far d_seg d_far [] mm = mm"
| "memcpy_far d_seg d_far (b # bs) mm =
     memcpy_far d_seg (d_far + 1) bs (mm(MAKE_FLATPTR d_seg (ucast d_far) := b))"

text \<open>The bytes the caller's buffer holds: the addresses \<^verbatim>\<open>memcpy_far\<close> writes, in order.\<close>

definition far_addrs :: "u16 \<Rightarrow> u16 \<Rightarrow> nat \<Rightarrow> u32 list" where
  "far_addrs seg off n = map (\<lambda>k. MAKE_FLATPTR seg (ucast (off + of_nat k))) [0..<n]"

section \<open>Memory map enumeration: \<^verbatim>\<open>handle_15e820\<close>\<close>

text \<open>
  Modelled from the spec: \<^verbatim>\<open>struct e820entry\<close> is declared in \<^verbatim>\<open>memmap.h\<close>, which is not part
  of the sources at hand. The spec gives an entry a 64-bit base, a 64-bit length and a
  type; with a 32-bit type the record is stored in 20 bytes, the size of an entry of the
  INT 15h E820 interface.
\<close>

definition entry_bytes :: "e820entry \<Rightarrow> u8 list" where
  "entry_bytes e = le_bytes 8 (start e) @ le_bytes 8 (size_e e) @ le_bytes 4 (type_e e)"

definition sizeof_e820entry :: nat where
  "sizeof_e820entry = 20"

definition E820_SIGNATURE :: u32 where
  "E820_SIGNATURE = 0x534D4150"

text \<open>
  \<^verbatim>\<open>count\<close> is an \<^verbatim>\<open>int\<close> and \<^verbatim>\<open>regs->bx\<close> a \<^verbatim>\<open>u16\<close>, so \<^verbatim>\<open>regs->bx >= count\<close> and
  \<^verbatim>\<open>regs->bx == count-1\<close> compare integers; \<^verbatim>\<open>regs->ecx < sizeof(...)\<close> is unsigned. The
  cursor is read from the 16-bit \<^verbatim>\<open>bx\<close>, the next cursor is written to the 32-bit \<^verbatim>\<open>ebx\<close>.
\<close>

definition handle_15e820 :: "machine \<Rightarrow> bregs \<Rightarrow> machine \<times> bregs" where
  "handle_15e820 m regs =
     (let count = e820_count m
      in if edx regs \<noteq> 0x534D4150 \<or> uint (bx regs) \<ge> count
            \<or> unat (ecx regs) < sizeof_e820entry
         then (m, set_code_fail regs RET_EUNSUPPORTED)
         else
           let mm = memcpy_far (es regs) (di regs)
                      (entry_bytes (e820_list m ! unat (bx regs))) (mem m);
               regs1 = (if uint (bx regs) = count - 1 then regs\<lparr>ebx := 0\<rparr>
                        else regs\<lparr>ebx := ebx regs + 1\<rparr>);
               regs2 = regs1\<lparr>eax := 0x534D4150\<rparr>;
               regs3 = regs2\<lparr>ecx := of_nat sizeof_e820entry\<rparr>
           in (m\<lparr>mem := mm\<rparr>, set_success regs3))"

text \<open>The condition under which \<^verbatim>\<open>handle_15e820\<close> takes its failure branch.\<close>

definition e820_rejects :: "machine \<Rightarrow> bregs \<Rightarrow> bool" where
  "e820_rejects m regs =
     (edx regs \<noteq> E820_SIGNATURE \<or> e820_count m \<le> uint (bx regs)
      \<or> unat (ecx regs) < sizeof_e820entry)"

section \<open>Block move: \<^verbatim>\<open>handle_1587\<close>\<close>

text \<open>
  Modelled from the spec: the descriptor macros \<^verbatim>\<open>GDT_CODE\<close>, \<^verbatim>\<open>GDT_DATA\<close>, \<^verbatim>\<open>GDT_LIMIT\<close> and
  \<^verbatim>\<open>GDT_BASE\<close> are declared in a header that is not part of the sources at hand. The spec
  gives a descriptor a 32-bit base, a 20-bit limit and access flags; the bit positions
  are those of the x86 segment descriptor.
\<close>

definition GDT_CODE :: u64 where "GDT_CODE = push_bit 40 0x9b"
definition GDT_DATA :: u64 where "GDT_DATA = push_bit 40 0x93"

definition GDT_BASE :: "u32 \<Rightarrow> u64" where
  "GDT_BASE v = push_bit 32 (ucast v AND 0xff000000) OR push_bit 16 (ucast v AND 0x00ffffff)"

definition GDT_LIMIT :: "u32 \<Rightarrow> u64" where
  "GDT_LIMIT v = push_bit 32 (ucast v AND 0x000f0000) OR (ucast v AND 0x0000ffff)"

text \<open>
  Lines 107 to 119: the handler fills slots 1, 4 and 5 of the caller's table at \<^verbatim>\<open>es:si\<close>;
  slots 2 and 3 are the caller's source and destination descriptors. The handler makes
  these stores after \<^verbatim>\<open>set_a20(1)\<close>, so they reach the addresses as computed.
\<close>

definition gdt_setup :: "machine \<Rightarrow> bregs \<Rightarrow> machine" where
  "gdt_setup m regs =
     (let si32 = (ucast (si regs) :: u32);
          gdt_seg = es regs;
          loc = MAKE_FLATPTR gdt_seg si32;
          mm1 = SET_FARVAR64 gdt_seg (si32 + 1 * 8)
                  (GDT_DATA OR GDT_LIMIT (6 * 8 - 1) OR GDT_BASE loc) (mem m);
          mm2 = SET_FARVAR64 gdt_seg (si32 + 4 * 8)
                  (GDT_CODE OR GDT_LIMIT 0x0ffff OR GDT_BASE 0xf0000) mm1;
          loc' = MAKE_FLATPTR (seg_ss m) 0;
          mm3 = SET_FARVAR64 gdt_seg (si32 + 5 * 8)
                  (GDT_DATA OR GDT_LIMIT 0x0ffff OR GDT_BASE loc') mm2
      in m\<lparr>mem := mm3\<rparr>)"

text \<open>
  The assembly of lines 122 to 163, for executions in which the processor raises no
  exception (the handler installs none that returns). \<^verbatim>\<open>lgdtw\<close> reads the table's base
  (24 bits with a 16-bit operand) from bytes 2 to 4 of its operand at \<^verbatim>\<open>es:si+8\<close>; loading
  \<^verbatim>\<open>ds\<close> with selector \<^verbatim>\<open>2<<3\<close> and \<^verbatim>\<open>es\<close> with \<^verbatim>\<open>3<<3\<close> takes the segment bases from the
  descriptors at byte offsets 16 and 24 of the table (base bits 0 to 23 in bytes 2 to 4,
  bits 24 to 31 in byte 7).
\<close>

definition lgdtw_base :: "(u32 \<Rightarrow> u8) \<Rightarrow> u32 \<Rightarrow> u32" where
  "lgdtw_base mm p =
     ucast (mm (p + 2)) OR push_bit 8 (ucast (mm (p + 3))) OR push_bit 16 (ucast (mm (p + 4)))"

definition desc_base :: "(u32 \<Rightarrow> u8) \<Rightarrow> u32 \<Rightarrow> u32" where
  "desc_base mm p =
     ucast (mm (p + 2)) OR push_bit 8 (ucast (mm (p + 3))) OR push_bit 16 (ucast (mm (p + 4)))
       OR push_bit 24 (ucast (mm (p + 7)))"

text \<open>
  Modelled from the spec: the address gate itself is hardware. The spec's glossary has
  the A20 gate as the bit that controls whether the 21st address line is forced low, so
  that addresses above 1 MiB wrap; step 1 of the block move enables it to make extended
  addressing reachable. With the gate disabled, bit 20 of every address the copy puts
  out is 0; with the gate enabled, the address goes out as it is.
\<close>

definition a20_phys :: "bool \<Rightarrow> u32 \<Rightarrow> u32" where
  "a20_phys gate a = (if gate then a else a AND NOT 0x100000)"

text \<open>
  \<^verbatim>\<open>movsw\<close> moves the two bytes of one word from \<^verbatim>\<open>ds:si\<close> to \<^verbatim>\<open>es:di\<close>: \<open>movsw\<close> between
  two physical addresses, \<open>movsw_a20\<close> between two addresses that go through the gate.
  The code segment the handler installs is a 16-bit one, so \<^verbatim>\<open>rep movsw\<close> counts in \<^verbatim>\<open>cx\<close>
  and addresses through the 16-bit \<^verbatim>\<open>si\<close> and \<^verbatim>\<open>di\<close>, which advance by 2 (the direction
  flag is clear in compiled C code) and wrap around at \<^verbatim>\<open>0x10000\<close>.
\<close>

definition movsw :: "u32 \<Rightarrow> u32 \<Rightarrow> (u32 \<Rightarrow> u8) \<Rightarrow> (u32 \<Rightarrow> u8)" where
  "movsw s d mm = (let lo = mm s; hi = mm (s + 1) in mm(d := lo, d + 1 := hi))"

definition movsw_a20 :: "bool \<Rightarrow> u32 \<Rightarrow> u32 \<Rightarrow> (u32 \<Rightarrow> u8) \<Rightarrow> (u32 \<Rightarrow> u8)" where
  "movsw_a20 gate s d mm =
     (let lo = mm (a20_phys gate s); hi = mm (a20_phys gate (s + 1))
      in mm(a20_phys gate d := lo, a20_phys gate (d + 1) := hi))"

function rep_movsw ::
  "bool \<Rightarrow> u32 \<Rightarrow> u32 \<Rightarrow> u16 \<Rightarrow> u16 \<Rightarrow> u16 \<Rightarrow> (u32 \<Rightarrow> u8)
     \<Rightarrow> u16 \<times> u16 \<times> u16 \<times> (u32 \<Rightarrow> u8)" where
  "rep_movsw gate ds_base es_base c s d mm =
     (if c = 0 then (c, s, d, mm)
      else rep_movsw gate ds_base es_base (c - 1) (s + 2) (d + 2)
             (movsw_a20 gate (ds_base + ucast s) (es_base + ucast d) mm))"
  by pat_completeness auto
termination
  by (relation "measure (\<lambda>(gate, ds_base, es_base, c, s, d, mm). unat c)")
     (auto simp: unat_minus_one unat_gt_0)

declare rep_movsw.simps [simp del]

text \<open>The memory \<^verbatim>\<open>rep movsw\<close> leaves.\<close>

definition rep_movsw_mem ::
  "bool \<Rightarrow> u32 \<Rightarrow> u32 \<Rightarrow> u16 \<Rightarrow> u16 \<Rightarrow> u16 \<Rightarrow> (u32 \<Rightarrow> u8) \<Rightarrow> (u32 \<Rightarrow> u8)" where
  "rep_movsw_mem gate sb db c s d mm = snd (snd (snd (rep_movsw gate sb db c s d mm)))"

definition move_gdt_base :: "machine \<Rightarrow> bregs \<Rightarrow> u32" where
  "move_gdt_base m regs = lgdtw_base (mem m) (MAKE_FLATPTR (es regs) (ucast (si regs + 8)))"

definition move_src_base :: "machine \<Rightarrow> bregs \<Rightarrow> u32" where
  "move_src_base m regs = desc_base (mem m) (move_gdt_base m regs + 16)"

definition move_dst_base :: "machine \<Rightarrow> bregs \<Rightarrow> u32" where
  "move_dst_base m regs = desc_base (mem m) (move_gdt_base m regs + 24)"

text \<open>The physical address of the caller's descriptor table, \<^verbatim>\<open>es:si\<close>.\<close>

definition gdt_loc :: "bregs \<Rightarrow> u32" where
  "gdt_loc regs = MAKE_FLATPTR (es regs) (ucast (si regs))"

text \<open>
  The machine as the processor reads it through the gate, and the assembly block: the
  descriptor table and the two descriptors are read, and the words are moved, through
  the gate as port \<^verbatim>\<open>0x92\<close> has it when the block runs.
\<close>

definition a20_view :: "machine \<Rightarrow> machine" where
  "a20_view m = m\<lparr>mem := (\<lambda>a. mem m (a20_phys (a20_enabled m) a))\<rparr>"

definition pmode_copy :: "machine \<Rightarrow> bregs \<Rightarrow> machine" where
  "pmode_copy m regs =
     (let count = cx regs;
          gate = a20_enabled m;
          (c, s, d, mm) = rep_movsw gate (move_src_base (a20_view m) regs)
                            (move_dst_base (a20_view m) regs) count 0 0 (mem m)
      in m\<lparr>mem := mm\<rparr>)"

definition handle_1587 :: "machine \<Rightarrow> bregs \<Rightarrow> machine \<times> bregs" where
  "handle_1587 m regs =
     (let (prev_a20_enable, m1) = set_a20 1 m;
          m2 = gdt_setup m1 regs;
          m3 = pmode_copy m2 regs;
          (r, m4) = set_a20 prev_a20_enable m3
      in (m4, set_code_success regs))"

text \<open>
  The copy as the spec words it: \<open>n\<close> words, word \<open>i\<close> from byte offset \<open>2 * i\<close> of the
  source region to byte offset \<open>2 * i\<close> of the destination region, in ascending order.
\<close>

definition copy_words :: "nat \<Rightarrow> u32 \<Rightarrow> u32 \<Rightarrow> (u32 \<Rightarrow> u8) \<Rightarrow> (u32 \<Rightarrow> u8)" where
  "copy_words n src dst mm =
     foldl (\<lambda>mm i. movsw (src + of_nat (2 * i)) (dst + of_nat (2 * i)) mm) mm [0..<n]"

section \<open>Concrete inputs\<close>

text \<open>A machine with 8 MiB of memory, an empty port space and an empty memory map.\<close>

definition machine0 :: machine where
  "machine0 = \<lparr>ports = (\<lambda>p. 0), mem = (\<lambda>a. 0), seg_ss = 0, RamSize = 0x800000,
                e820_list = [], e820_count = 0\<rparr>"

definition regs0 :: bregs where
  "regs0 = \<lparr>eax = 0, ebx = 0, ecx = 0, edx = 0, esi = 0, edi = 0, es = 0, flags = 0\<rparr>"

text \<open>The same machine with the gate bit set in port \<^verbatim>\<open>0x92\<close>.\<close>

definition machine_gate_on :: machine where
  "machine_gate_on = machine0\<lparr>ports := (\<lambda>p. if p = 0x92 then 0x02 else 0)\<rparr>"

text \<open>The machine of \<open>machine0\<close> with a given total memory size.\<close>

definition machine_ram :: "u32 \<Rightarrow> machine" where
  "machine_ram rs = machine0\<lparr>RamSize := rs\<rparr>"

text \<open>A machine with a memory map of two entries, and an E820 call with a buffer at \<^verbatim>\<open>0:0x500\<close>.\<close>

definition machine_e820 :: machine where
  "machine_e820 = machine0\<lparr>
     e820_list := [\<lparr>start = 0, size_e = 0x9fc00, type_e = 1\<rparr>,
                   \<lparr>start = 0x100000, size_e = 0x700000, type_e = 1\<rparr>],
     e820_count := 2\<rparr>"

definition e820_call :: "u32 \<Rightarrow> u32 \<Rightarrow> bregs" where
  "e820_call cursor sz =
     regs0\<lparr>eax := 0xE820, ebx := cursor, ecx := sz, edx := 0x534D4150, edi := 0x500\<rparr>"

text \<open>
  A machine whose memory holds a descriptor table at \<^verbatim>\<open>0:0x500\<close>: the source descriptor
  (slot 2, at \<^verbatim>\<open>0x510\<close>) has base \<^verbatim>\<open>0x100000\<close>, the destination descriptor (slot 3, at
  \<^verbatim>\<open>0x518\<close>) has base \<^verbatim>\<open>0x200000\<close>, both with limit \<^verbatim>\<open>0xFFFF\<close> and access byte \<^verbatim>\<open>0x93\<close>;
  three bytes of the source region are non-zero. \<open>move_call n\<close> is the block-move call
  for \<open>n\<close> words with this table.
\<close>

definition machine_move :: machine where
  "machine_move = machine0\<lparr>mem := (\<lambda>a.
       if a = 0x510 \<or> a = 0x511 \<or> a = 0x518 \<or> a = 0x519 then 0xFF
       else if a = 0x515 \<or> a = 0x51D then 0x93
       else if a = 0x514 then 0x10
       else if a = 0x51C then 0x20
       else if a = 0x100002 then 0xAB
       else if a = 0x100004 then 0xCD
       else if a = 0x110001 then 0x55
       else 0)\<rparr>"

definition move_call :: "u32 \<Rightarrow> bregs" where
  "move_call count = regs0\<lparr>eax := 0x8700, ecx := count, esi := 0x500\<rparr>"

section \<open>The gate bit\<close>

lemma A20_bit: "A20_ENABLE_BIT = 2 ^ 1"
  by (simp add: A20_ENABLE_BIT_def)

lemma A20_nonzero: "A20_ENABLE_BIT \<noteq> 0"
  by (simp add: A20_ENABLE_BIT_def)

lemma gate_test: "((x::u8) AND A20_ENABLE_BIT = 0) = (\<not> bit x (Suc 0))"
  unfolding A20_bit
  by (simp only: and_exp_eq_0_iff_not_bit) simp

lemma gate_test_or: "((x::u8) OR A20_ENABLE_BIT) AND A20_ENABLE_BIT \<noteq> 0"
  by (simp add: gate_test) (simp add: A20_bit bit_simps)

lemma gate_test_and: "((x::u8) AND NOT A20_ENABLE_BIT) AND A20_ENABLE_BIT = 0"
  by (simp add: gate_test) (simp add: A20_bit bit_simps)

lemma gate_or_set: "(x::u8) AND A20_ENABLE_BIT \<noteq> 0 \<Longrightarrow> x OR A20_ENABLE_BIT = x"
  unfolding gate_test unfolding A20_bit
  by (rule bit_word_eqI) (auto simp: bit_simps)

lemma gate_or_clear:
  "(x::u8) AND A20_ENABLE_BIT = 0 \<Longrightarrow> (x OR A20_ENABLE_BIT) AND NOT A20_ENABLE_BIT = x"
  unfolding gate_test unfolding A20_bit
  by (rule bit_word_eqI) (auto simp: bit_simps)

lemma gate_and_clear: "(x::u8) AND A20_ENABLE_BIT = 0 \<Longrightarrow> x AND NOT A20_ENABLE_BIT = x"
  unfolding gate_test unfolding A20_bit
  by (rule bit_word_eqI) (auto simp: bit_simps)

lemma gate_others_or:
  "((x::u8) OR A20_ENABLE_BIT) AND NOT A20_ENABLE_BIT = x AND NOT A20_ENABLE_BIT"
  unfolding A20_bit
  by (rule bit_word_eqI) (auto simp: bit_simps)

lemma set_a20_fst: "fst (set_a20 c m) = (if a20_enabled m then 1 else 0)"
  by (simp add: set_a20_def a20_enabled_def Let_def)

lemma set_a20_snd:
  "snd (set_a20 c m) = m\<lparr>ports := (ports m)(PORT_A20 :=
     (if c \<noteq> 0 then ports m PORT_A20 OR A20_ENABLE_BIT
      else ports m PORT_A20 AND NOT A20_ENABLE_BIT))\<rparr>"
  by (simp add: set_a20_def inb_def outb_def Let_def)

text \<open>
  Claim C8. For every register value and every flag, \<^verbatim>\<open>set_a20\<close> writes back the old
  value with the gate bit set (flag non-zero) or cleared (flag zero): the bits other than
  the gate bit are the old ones, the gate bit is the flag, the result is non-zero exactly
  when the gate bit was set before, and a second call with the same flag leaves the
  machine as the first call left it.
\<close>

theorem set_a20_gate_bit_only:
  "inb PORT_A20 (snd (set_a20 cond m)) =
     (if cond \<noteq> 0 then inb PORT_A20 m OR A20_ENABLE_BIT
      else inb PORT_A20 m AND NOT A20_ENABLE_BIT)
   \<and> inb PORT_A20 (snd (set_a20 cond m)) AND NOT A20_ENABLE_BIT
       = inb PORT_A20 m AND NOT A20_ENABLE_BIT
   \<and> a20_enabled (snd (set_a20 cond m)) = (cond \<noteq> 0)
   \<and> (fst (set_a20 cond m) \<noteq> 0) = a20_enabled m
   \<and> fst (set_a20 cond m) = (if a20_enabled m then 1 else 0)
   \<and> snd (set_a20 cond (snd (set_a20 cond m))) = snd (set_a20 cond m)"
  by (simp add: set_a20_fst set_a20_snd inb_def a20_enabled_def gate_test_or
      gate_test_and gate_others_or A20_nonzero)

text \<open>
  Claim C9, as stated: \<^verbatim>\<open>set_a20(1)\<close> followed by \<^verbatim>\<open>set_a20(0)\<close> restores the original gate
  bit. It does not when the bit was set: the second call clears it.
\<close>

theorem set_a20_on_off_counterexample:
  "a20_enabled machine_gate_on
   \<and> \<not> a20_enabled (snd (set_a20 0 (snd (set_a20 1 machine_gate_on))))
   \<and> inb PORT_A20 (snd (set_a20 0 (snd (set_a20 1 machine_gate_on))))
       \<noteq> inb PORT_A20 machine_gate_on"
  by (simp add: set_a20_def a20_enabled_def inb_def outb_def machine_gate_on_def machine0_def
      PORT_A20_def A20_ENABLE_BIT_def Let_def)

text \<open>
  Claim C9, amended: \<^verbatim>\<open>set_a20(1)\<close> followed by \<^verbatim>\<open>set_a20(0)\<close> leaves the gate bit clear and
  the other bits of the register as they were, so the register has its original value
  exactly when the gate bit was clear at the start; the second call reports that the bit
  was set.
\<close>

theorem set_a20_on_off:
  "fst (set_a20 0 (snd (set_a20 1 m))) = 1
   \<and> \<not> a20_enabled (snd (set_a20 0 (snd (set_a20 1 m))))
   \<and> inb PORT_A20 (snd (set_a20 0 (snd (set_a20 1 m)))) = inb PORT_A20 m AND NOT A20_ENABLE_BIT
   \<and> (inb PORT_A20 (snd (set_a20 0 (snd (set_a20 1 m)))) = inb PORT_A20 m) = (\<not> a20_enabled m)"
proof -
  let ?x = "ports m PORT_A20"
  have "(?x AND NOT A20_ENABLE_BIT = ?x) = (?x AND A20_ENABLE_BIT = 0)"
  proof
    assume "?x AND NOT A20_ENABLE_BIT = ?x"
    then have "?x AND A20_ENABLE_BIT = (?x AND NOT A20_ENABLE_BIT) AND A20_ENABLE_BIT"
      by simp
    then show "?x AND A20_ENABLE_BIT = 0"
      by (simp only: gate_test_and)
  next
    assume "?x AND A20_ENABLE_BIT = 0"
    then show "?x AND NOT A20_ENABLE_BIT = ?x"
      by (rule gate_and_clear)
  qed
  then show ?thesis
    by (simp add: set_a20_fst set_a20_snd inb_def a20_enabled_def gate_test_or
      gate_test_and gate_others_or A20_nonzero)
qed

section \<open>The port during the block move\<close>

lemma ports_gdt_setup: "ports (gdt_setup m regs) = ports m"
  by (simp add: gdt_setup_def Let_def)

lemma ports_pmode_copy: "ports (pmode_copy m regs) = ports m"
  by (simp add: pmode_copy_def Let_def split: prod.splits)

lemma handle_1587_unfold:
  "fst (handle_1587 m regs) =
     snd (set_a20 (fst (set_a20 1 m)) (pmode_copy (gdt_setup (snd (set_a20 1 m)) regs) regs))"
  by (simp add: handle_1587_def Let_def split: prod.splits)

lemma restore_port:
  "(if a20_enabled m then (ports m PORT_A20 OR A20_ENABLE_BIT) OR A20_ENABLE_BIT
    else (ports m PORT_A20 OR A20_ENABLE_BIT) AND NOT A20_ENABLE_BIT) = ports m PORT_A20"
  by (simp add: a20_enabled_def inb_def gate_or_set gate_or_clear)

lemma handle_1587_ports: "ports (fst (handle_1587 m regs)) = ports m"
proof -
  have "ports (fst (handle_1587 m regs)) = (ports m)(PORT_A20 :=
     (if a20_enabled m then (ports m PORT_A20 OR A20_ENABLE_BIT) OR A20_ENABLE_BIT
      else (ports m PORT_A20 OR A20_ENABLE_BIT) AND NOT A20_ENABLE_BIT))"
    unfolding handle_1587_unfold
    apply (subst set_a20_snd)
    apply (simp only: ports_pmode_copy ports_gdt_setup set_a20_fst)
    apply (simp add: set_a20_snd)
    done
  also have "\<dots> = ports m"
    by (simp only: restore_port fun_upd_triv)
  finally show ?thesis .
qed

section \<open>The size queries\<close>

lemma low16_low: "(ucast (low16 old v) :: u16) = v"
  unfolding low16_def
  by (rule bit_word_eqI) (auto simp: bit_simps)

lemma unat_ucast_32_16: "unat (ucast (w::u32) :: u16) = unat w mod 65536"
  by (simp add: unsigned_ucast_eq take_bit_eq_mod)

lemma failed_set_success: "\<not> failed (set_success r)"
  by (simp add: failed_def set_success_def F_CF_def and.assoc)

lemma ax_handle_1588:
  "ax (handle_1588 m regs) =
     (if RamSize m > 64 * 1024 * 1024 then 63 * 1024
      else ucast ((RamSize m - 1 * 1024 * 1024) div 1024))"
  by (simp add: handle_1588_def Let_def ax_def set_ax_def set_success_def low16_low)

lemma failed_handle_1588: "\<not> failed (handle_1588 m regs)"
  by (simp add: handle_1588_def Let_def failed_set_success)

lemma cx_handle_15e801:
  "cx (handle_15e801 m regs) =
     (if RamSize m > 16 * 1024 * 1024 then 15 * 1024
      else ucast ((RamSize m - 1 * 1024 * 1024) div 1024))"
  by (simp add: handle_15e801_def Let_def ax_def bx_def cx_def dx_def set_ax_def set_bx_def
      set_cx_def set_dx_def set_success_def low16_low)

lemma dx_handle_15e801:
  "dx (handle_15e801 m regs) =
     (if RamSize m > 16 * 1024 * 1024 then ucast ((RamSize m - 16 * 1024 * 1024) div (64 * 1024))
      else 0)"
  by (simp add: handle_15e801_def Let_def ax_def bx_def cx_def dx_def set_ax_def set_bx_def
      set_cx_def set_dx_def set_success_def low16_low)

lemma ax_handle_15e801: "ax (handle_15e801 m regs) = cx (handle_15e801 m regs)"
  by (simp add: handle_15e801_def Let_def ax_def bx_def cx_def dx_def set_ax_def set_bx_def
      set_cx_def set_dx_def set_success_def low16_low)

lemma bx_handle_15e801: "bx (handle_15e801 m regs) = dx (handle_15e801 m regs)"
  by (simp add: handle_15e801_def Let_def ax_def bx_def cx_def dx_def set_ax_def set_bx_def
      set_cx_def set_dx_def set_success_def low16_low)

lemma failed_handle_15e801: "\<not> failed (handle_15e801 m regs)"
  by (simp add: handle_15e801_def Let_def failed_set_success)

text \<open>The quotient of the else branches, from 1 MiB up and below 1 MiB.\<close>

lemma kib_above_1M:
  assumes "0x100000 \<le> (R::u32)" and "unat R \<le> 67108864"
  shows "unat (ucast ((R - 1 * 1024 * 1024) div 1024) :: u16) = (unat R - 1 * 1024 * 1024) div 1024"
proof -
  have sub: "unat (R - 0x100000) = unat R - 1048576"
    using assms(1) by (simp add: unat_sub)
  have "(unat R - 1048576) div 1024 < 65536"
    using assms(2) by simp
  then show ?thesis
    by (simp add: unat_ucast_32_16 unat_div sub)
qed

lemma kib_below_1M:
  assumes "(R::u32) < 0x100000"
  shows "unat (R - 1 * 1024 * 1024) = unat R + 2 ^ 32 - 1 * 1024 * 1024"
    and "unat (ucast ((R - 1 * 1024 * 1024) div 1024) :: u16) = 64512 + unat R div 1024"
proof -
  have lt: "unat R < 1048576"
    using assms by (simp add: word_less_nat_alt)
  have "unat (R - 0x100000) = (unat R + 2 ^ 32 - 1048576) mod 2 ^ 32"
    using lt by (simp add: unat_sub_if_size word_size)
  then show sub: "unat (R - 1 * 1024 * 1024) = unat R + 2 ^ 32 - 1 * 1024 * 1024"
    using lt by simp
  have q: "(unat R + 4293918720) div 1024 = 4193280 + unat R div 1024"
    using div_mult_self1 [of 1024 "unat R" 4193280] by simp
  have "unat R div 1024 < 1024"
    using lt by simp
  then have "(4193280 + unat R div 1024) mod 65536 = 64512 + unat R div 1024"
    using mod_mult_self1 [of "64512 + unat R div 1024" 63 65536] by simp
  then have "((4293918720 + unat R) div 1024) mod 65536 = 64512 + unat R div 1024"
    using q by (simp only: add.commute [of 4293918720 "unat R"])
  then show "unat (ucast ((R - 1 * 1024 * 1024) div 1024) :: u16) = 64512 + unat R div 1024"
    using sub by (simp add: unat_ucast_32_16 unat_div)
qed

lemma blocks_above_16M:
  assumes "0x1000000 < (R::u32)"
  shows "unat (ucast ((R - 16 * 1024 * 1024) div (64 * 1024)) :: u16)
           = (unat R - 16 * 1024 * 1024) div (64 * 1024)"
proof -
  have sub: "unat (R - 0x1000000) = unat R - 16777216"
    using assms by (simp add: unat_sub)
  have "unat R < 2 ^ LENGTH(32)"
    by (rule unsigned_less)
  then have "(unat R - 16777216) div 65536 < 65536"
    by simp
  then show ?thesis
    by (simp add: unat_ucast_32_16 unat_div sub)
qed

lemma query_size_legacy_mono: "a \<le> b \<Longrightarrow> query_size_legacy a \<le> query_size_legacy b"
  unfolding query_size_legacy_def
  by (auto intro: div_le_mono)

lemma unat_ax_handle_1588:
  assumes "0x100000 \<le> RamSize m"
  shows "unat (ax (handle_1588 m regs)) = query_size_legacy (unat (RamSize m))"
proof (cases "RamSize m > 64 * 1024 * 1024")
  case True
  then show ?thesis
    by (simp add: ax_handle_1588 query_size_legacy_def word_less_nat_alt)
next
  case False
  then have le: "unat (RamSize m) \<le> 67108864"
    by (simp add: word_less_nat_alt)
  show ?thesis
    using False le kib_above_1M [OF assms le]
    by (simp add: ax_handle_1588 query_size_legacy_def)
qed

text \<open>
  Claim C6, amended: for every total memory size \<open>R\<close> of at least 1 MiB, \<^verbatim>\<open>handle_1588\<close>
  reports \<open>63 * 1024\<close> KiB when \<open>R\<close> is above 64 MiB and \<open>(R - 1 MiB) / 1024\<close> KiB otherwise,
  and succeeds; the result is monotonic in \<open>R\<close> from 1 MiB up; 2 MiB gives 1024, 100 MiB
  gives \<open>63 * 1024\<close>, and 1 MiB gives 0.
\<close>

theorem handle_1588_from_1MiB:
  assumes "0x100000 \<le> RamSize m"
  shows "unat (ax (handle_1588 m regs)) = query_size_legacy (unat (RamSize m))
    \<and> \<not> failed (handle_1588 m regs)
    \<and> (RamSize m \<le> RamSize m' \<longrightarrow> ax (handle_1588 m regs) \<le> ax (handle_1588 m' regs'))
    \<and> ax (handle_1588 (machine_ram 0x200000) regs) = 1024
    \<and> ax (handle_1588 (machine_ram 0x6400000) regs) = 63 * 1024
    \<and> ax (handle_1588 (machine_ram 0x100000) regs) = 0"
proof (intro conjI impI)
  show "unat (ax (handle_1588 m regs)) = query_size_legacy (unat (RamSize m))"
    using assms by (rule unat_ax_handle_1588)
  show "\<not> failed (handle_1588 m regs)"
    by (rule failed_handle_1588)
  show "ax (handle_1588 m regs) \<le> ax (handle_1588 m' regs')" if le: "RamSize m \<le> RamSize m'"
  proof -
    have "0x100000 \<le> RamSize m'"
      using assms le by simp
    then have "unat (ax (handle_1588 m' regs')) = query_size_legacy (unat (RamSize m'))"
      by (rule unat_ax_handle_1588)
    moreover have "unat (RamSize m) \<le> unat (RamSize m')"
      using le by (simp add: word_le_nat_alt)
    ultimately show ?thesis
      using unat_ax_handle_1588 [OF assms, of regs] query_size_legacy_mono
      by (simp add: word_le_nat_alt)
  qed
  show "ax (handle_1588 (machine_ram 0x200000) regs) = 1024"
    by (simp add: ax_handle_1588 machine_ram_def)
  show "ax (handle_1588 (machine_ram 0x6400000) regs) = 63 * 1024"
    by (simp add: ax_handle_1588 machine_ram_def)
  show "ax (handle_1588 (machine_ram 0x100000) regs) = 0"
    by (simp add: ax_handle_1588 machine_ram_def)
qed

text \<open>Claim C6, amended, at 8 MiB, compared with 20 MiB.\<close>

theorem handle_1588_from_1MiB_witness:
  "0x100000 \<le> RamSize (machine_ram 0x800000)
   \<and> RamSize (machine_ram 0x800000) \<le> RamSize (machine_ram 0x1400000)
   \<and> unat (ax (handle_1588 (machine_ram 0x800000) regs0)) = 7 * 1024
   \<and> ax (handle_1588 (machine_ram 0x800000) regs0) \<le> ax (handle_1588 (machine_ram 0x1400000) regs0)"
  using handle_1588_from_1MiB [of "machine_ram 0x800000" regs0 "machine_ram 0x1400000" regs0]
  by (simp add: machine_ram_def query_size_legacy_def)

text \<open>
  Claim C6, as stated for every \<open>R\<close> and with a result monotonic in \<open>R\<close>: 512 KiB is less
  than 1 MiB, but \<^verbatim>\<open>handle_1588\<close> reports 65024 for 512 KiB and 0 for 1 MiB.
\<close>

theorem handle_1588_below_1MiB_counterexample:
  "RamSize (machine_ram 0x80000) \<le> RamSize (machine_ram 0x100000)
   \<and> \<not> ax (handle_1588 (machine_ram 0x80000) regs0) \<le> ax (handle_1588 (machine_ram 0x100000) regs0)
   \<and> unat (ax (handle_1588 (machine_ram 0x80000) regs0)) = 65024
   \<and> unat (ax (handle_1588 (machine_ram 0x100000) regs0)) = 0"
  by (simp add: ax_handle_1588 machine_ram_def)


lemma unat_cx_handle_15e801:
  assumes "0x100000 \<le> RamSize m"
  shows "(unat (cx (handle_15e801 m regs)), unat (dx (handle_15e801 m regs)))
           = query_size_extended (unat (RamSize m))"
proof (cases "RamSize m > 16 * 1024 * 1024")
  case True
  then have "0x1000000 < RamSize m"
    by simp
  from blocks_above_16M [OF this] True show ?thesis
    by (simp add: cx_handle_15e801 dx_handle_15e801 query_size_extended_def word_less_nat_alt)
next
  case False
  then have "unat (RamSize m) \<le> 67108864"
    by (simp add: word_less_nat_alt)
  from kib_above_1M [OF assms this] False show ?thesis
    by (simp add: cx_handle_15e801 dx_handle_15e801 query_size_extended_def word_less_nat_alt)
qed

text \<open>
  Claim C7, amended: for every total memory size \<open>R\<close> of at least 1 MiB, \<^verbatim>\<open>handle_15e801\<close>
  reports in \<^verbatim>\<open>cx\<close> and \<^verbatim>\<open>dx\<close> the pair \<open>(15 * 1024, (R - 16 MiB) / 64 KiB)\<close> when \<open>R\<close> is
  above 16 MiB and \<open>((R - 1 MiB) / 1024, 0)\<close> otherwise, and succeeds; \<^verbatim>\<open>ax\<close> equals \<^verbatim>\<open>cx\<close>
  and \<^verbatim>\<open>bx\<close> equals \<^verbatim>\<open>dx\<close>; 8 MiB gives \<open>(7 * 1024, 0)\<close> and 20 MiB gives
  \<open>(15 * 1024, 64)\<close>.
\<close>

theorem handle_15e801_from_1MiB:
  assumes "0x100000 \<le> RamSize m"
  shows "(unat (cx (handle_15e801 m regs)), unat (dx (handle_15e801 m regs)))
           = query_size_extended (unat (RamSize m))
    \<and> ax (handle_15e801 m regs) = cx (handle_15e801 m regs)
    \<and> bx (handle_15e801 m regs) = dx (handle_15e801 m regs)
    \<and> \<not> failed (handle_15e801 m regs)
    \<and> (cx (handle_15e801 (machine_ram 0x800000) regs),
        dx (handle_15e801 (machine_ram 0x800000) regs)) = (7 * 1024, 0)
    \<and> (cx (handle_15e801 (machine_ram 0x1400000) regs),
        dx (handle_15e801 (machine_ram 0x1400000) regs)) = (15 * 1024, 64)"
proof (intro conjI)
  show "(unat (cx (handle_15e801 m regs)), unat (dx (handle_15e801 m regs)))
           = query_size_extended (unat (RamSize m))"
    using assms by (rule unat_cx_handle_15e801)
  show "ax (handle_15e801 m regs) = cx (handle_15e801 m regs)"
    by (rule ax_handle_15e801)
  show "bx (handle_15e801 m regs) = dx (handle_15e801 m regs)"
    by (rule bx_handle_15e801)
  show "\<not> failed (handle_15e801 m regs)"
    by (rule failed_handle_15e801)
  show "(cx (handle_15e801 (machine_ram 0x800000) regs),
        dx (handle_15e801 (machine_ram 0x800000) regs)) = (7 * 1024, 0)"
    by (simp add: cx_handle_15e801 dx_handle_15e801 machine_ram_def)
  show "(cx (handle_15e801 (machine_ram 0x1400000) regs),
        dx (handle_15e801 (machine_ram 0x1400000) regs)) = (15 * 1024, 64)"
    by (simp add: cx_handle_15e801 dx_handle_15e801 machine_ram_def)
qed

text \<open>Claim C7, amended, at 20 MiB.\<close>

theorem handle_15e801_from_1MiB_witness:
  "0x100000 \<le> RamSize (machine_ram 0x1400000)
   \<and> unat (cx (handle_15e801 (machine_ram 0x1400000) regs0)) = 15 * 1024
   \<and> unat (dx (handle_15e801 (machine_ram 0x1400000) regs0)) = 64
   \<and> ax (handle_15e801 (machine_ram 0x1400000) regs0) = cx (handle_15e801 (machine_ram 0x1400000) regs0)"
  using handle_15e801_from_1MiB [of "machine_ram 0x1400000" regs0]
  by (simp add: machine_ram_def query_size_extended_def)

text \<open>
  Claim C7, as stated for every \<open>R\<close>: at 512 KiB \<^verbatim>\<open>handle_15e801\<close> reports 65024 in \<^verbatim>\<open>cx\<close>,
  which is neither \<open>(R - 1 MiB) / 1024\<close> over the integers (\<open>- 512\<close>), nor that quotient
  in 32-bit arithmetic (4193792), nor the value 0 of a subtraction that stops at zero.
\<close>

theorem handle_15e801_below_1MiB_counterexample:
  "unat (cx (handle_15e801 (machine_ram 0x80000) regs0)) = 65024
   \<and> (int (unat (RamSize (machine_ram 0x80000))) - 1 * 1024 * 1024) div 1024 = - 512
   \<and> unat ((RamSize (machine_ram 0x80000) - 1 * 1024 * 1024) div 1024) = 4193792
   \<and> (unat (cx (handle_15e801 (machine_ram 0x80000) regs0)),
       unat (dx (handle_15e801 (machine_ram 0x80000) regs0)))
        \<noteq> query_size_extended (unat (RamSize (machine_ram 0x80000)))"
  by (simp add: cx_handle_15e801 dx_handle_15e801 machine_ram_def query_size_extended_def)

text \<open>
  Claim C10. When the total memory size \<open>R\<close> is below 1 MiB, the subtraction
  \<open>R - 1 MiB\<close> wraps around modulo \<open>2 ^ 32\<close>, and both \<^verbatim>\<open>handle_1588\<close> and the uncapped
  branch of \<^verbatim>\<open>handle_15e801\<close> succeed and report the low 16 bits of the wrapped quotient,
  \<open>64512 + R / 1024\<close>: a value above every capped result, not 0 and not an error.
\<close>

theorem size_queries_wrap_below_1MiB:
  assumes "RamSize m < 0x100000"
  shows "unat (RamSize m - 1 * 1024 * 1024) = unat (RamSize m) + 2 ^ 32 - 1 * 1024 * 1024
    \<and> unat (ax (handle_1588 m regs)) = 64512 + unat (RamSize m) div 1024
    \<and> unat (cx (handle_15e801 m regs)) = 64512 + unat (RamSize m) div 1024
    \<and> unat (ax (handle_15e801 m regs)) = 64512 + unat (RamSize m) div 1024
    \<and> dx (handle_15e801 m regs) = 0
    \<and> bx (handle_15e801 m regs) = 0
    \<and> ax (handle_1588 m regs) \<noteq> 0
    \<and> cx (handle_15e801 m regs) \<noteq> 0
    \<and> \<not> failed (handle_1588 m regs)
    \<and> \<not> failed (handle_15e801 m regs)"
proof -
  have not64: "\<not> RamSize m > 64 * 1024 * 1024" and not16: "\<not> RamSize m > 16 * 1024 * 1024"
    using assms by (simp_all add: word_less_nat_alt)
  have a: "unat (ax (handle_1588 m regs)) = 64512 + unat (RamSize m) div 1024"
    using kib_below_1M(2) [OF assms] not64 by (simp add: ax_handle_1588)
  have c: "unat (cx (handle_15e801 m regs)) = 64512 + unat (RamSize m) div 1024"
    using kib_below_1M(2) [OF assms] not16 by (simp add: cx_handle_15e801)
  have d: "dx (handle_15e801 m regs) = 0"
    using not16 by (simp add: dx_handle_15e801)
  have "unat (ax (handle_1588 m regs)) \<noteq> 0" and "unat (cx (handle_15e801 m regs)) \<noteq> 0"
    using a c by simp_all
  then have nz: "ax (handle_1588 m regs) \<noteq> 0" "cx (handle_15e801 m regs) \<noteq> 0"
    by (simp_all add: unat_eq_0)
  show ?thesis
    using kib_below_1M(1) [OF assms] a c d nz
    by (simp add: ax_handle_15e801 bx_handle_15e801 failed_handle_1588 failed_handle_15e801)
qed

text \<open>Claim C10 at 512 KiB.\<close>

theorem size_queries_wrap_below_1MiB_witness:
  "RamSize (machine_ram 0x80000) < 0x100000
   \<and> unat (ax (handle_1588 (machine_ram 0x80000) regs0)) = 65024
   \<and> unat (cx (handle_15e801 (machine_ram 0x80000) regs0)) = 65024
   \<and> dx (handle_15e801 (machine_ram 0x80000) regs0) = 0"
  using size_queries_wrap_below_1MiB [of "machine_ram 0x80000" regs0]
  by (simp add: machine_ram_def)

section \<open>The memory map cursor\<close>

lemma ucast_16_32_inj: "(ucast (x::u16) :: u32) = ucast y \<Longrightarrow> x = y"
proof -
  assume "(ucast x :: u32) = ucast y"
  then have "(ucast (ucast x :: u32) :: u16) = ucast (ucast y :: u32)"
    by simp
  then show "x = y"
    by (simp add: ucast_up_ucast_id is_up)
qed

lemma MAKE_FLATPTR_inj:
  "MAKE_FLATPTR seg (ucast (x::u16)) = MAKE_FLATPTR seg (ucast y) \<Longrightarrow> x = y"
  by (simp add: MAKE_FLATPTR_def ucast_16_32_inj)

lemma far_addrs_Suc:
  "far_addrs seg off (Suc n) = MAKE_FLATPTR seg (ucast off) # far_addrs seg (off + 1) n"
proof -
  have "[0..<Suc n] = 0 # map Suc [0..<n]"
    by (simp add: upt_conv_Cons map_Suc_upt del: upt_Suc)
  then show ?thesis
    by (simp add: far_addrs_def comp_def add.assoc del: upt_Suc)
qed

lemma memcpy_far_frame:
  "a \<notin> set (far_addrs seg off (length bs)) \<Longrightarrow> memcpy_far seg off bs mm a = mm a"
proof (induction bs arbitrary: off mm)
  case Nil
  then show ?case by simp
next
  case (Cons b bs)
  then show ?case
    by (simp add: far_addrs_Suc)
qed

lemma head_not_in_tail:
  assumes "n < 65536"
  shows "MAKE_FLATPTR seg (ucast (off::u16)) \<notin> set (far_addrs seg (off + 1) n)"
proof
  assume "MAKE_FLATPTR seg (ucast off) \<in> set (far_addrs seg (off + 1) n)"
  then obtain k where k: "k < n" and "MAKE_FLATPTR seg (ucast off) = MAKE_FLATPTR seg (ucast (off + 1 + of_nat k))"
    by (auto simp: far_addrs_def)
  then have "off = off + 1 + of_nat k"
    by (auto dest: MAKE_FLATPTR_inj)
  then have "(of_nat (Suc k) :: u16) = 0"
    by (simp add: add.assoc)
  moreover have "(of_nat (Suc k) :: u16) \<noteq> 0"
    using k assms by (intro of_nat_neq_0) simp_all
  ultimately show False by simp
qed

lemma memcpy_far_nth:
  "length bs \<le> 65536 \<Longrightarrow> k < length bs \<Longrightarrow>
     memcpy_far seg off bs mm (MAKE_FLATPTR seg (ucast (off + of_nat k))) = bs ! k"
proof (induction bs arbitrary: off mm k)
  case Nil
  then show ?case by simp
next
  case (Cons b bs)
  show ?case
  proof (cases k)
    case 0
    have "MAKE_FLATPTR seg (ucast off) \<notin> set (far_addrs seg (off + 1) (length bs))"
      using Cons.prems by (intro head_not_in_tail) simp
    then show ?thesis
      using 0 by (simp add: memcpy_far_frame)
  next
    case (Suc j)
    then have "memcpy_far seg (off + 1) bs (mm(MAKE_FLATPTR seg (ucast off) := b))
                 (MAKE_FLATPTR seg (ucast (off + 1 + of_nat j))) = bs ! j"
      using Cons.prems by (intro Cons.IH) simp_all
    then show ?thesis
      using Suc by (simp add: add.assoc)
  qed
qed

lemma memcpy_far_buffer:
  assumes "length bs \<le> 65536"
  shows "map (memcpy_far seg off bs mm) (far_addrs seg off (length bs)) = bs"
  using assms by (auto simp: far_addrs_def memcpy_far_nth intro!: nth_equalityI)

lemma length_le_bytes: "length (le_bytes n w) = n"
  by (simp add: le_bytes_def)

lemma length_entry_bytes: "length (entry_bytes e) = sizeof_e820entry"
  by (simp add: entry_bytes_def sizeof_e820entry_def length_le_bytes)


lemma failed_set_code_fail: "failed (set_code_fail r c)"
  by (simp add: failed_def set_code_fail_def F_CF_def)

lemma ah_set_code_fail: "ah (set_code_fail r c) = c"
  unfolding ah_def set_code_fail_def set_ah_def
  apply simp
  apply (rule bit_word_eqI)
  apply (auto simp: bit_simps)
  done

lemma handle_15e820_reject:
  "e820_rejects m regs \<Longrightarrow> handle_15e820 m regs = (m, set_code_fail regs RET_EUNSUPPORTED)"
  by (auto simp: handle_15e820_def e820_rejects_def E820_SIGNATURE_def Let_def)

lemma handle_15e820_accept:
  "\<not> e820_rejects m regs \<Longrightarrow> handle_15e820 m regs =
     (m\<lparr>mem := memcpy_far (es regs) (di regs) (entry_bytes (e820_list m ! unat (bx regs))) (mem m)\<rparr>,
      set_success (regs\<lparr>ebx := (if uint (bx regs) = e820_count m - 1 then 0 else ebx regs + 1),
                        eax := 0x534D4150, ecx := of_nat sizeof_e820entry\<rparr>))"
  by (auto simp: handle_15e820_def e820_rejects_def E820_SIGNATURE_def Let_def)

lemma uint_less_unat: "uint (w::u32) < int n \<Longrightarrow> unat w < n"
proof -
  assume "uint w < int n"
  then have "int (unat w) < int n"
    by (simp only: uint_nat)
  then show "unat w < n"
    by linarith
qed

lemma small_cursor:
  assumes "uint (w::u32) < 65536"
  shows "uint (ucast w :: u16) = uint w" and "unat (ucast w :: u16) = unat w"
proof -
  have "unat w < 65536"
    using assms by (intro uint_less_unat) simp
  then show u: "unat (ucast w :: u16) = unat w"
    by (simp add: unsigned_ucast_eq take_bit_eq_mod)
  show "uint (ucast w :: u16) = uint w"
    by (simp only: uint_nat u)
qed

lemma uint_succ:
  assumes "uint (w::u32) < 65536"
  shows "uint (w + 1) = uint w + 1"
proof -
  have "unat w < 65536"
    using assms by (intro uint_less_unat) simp
  then have "unat w + unat (1::u32) < 2 ^ LENGTH(32)"
    by simp
  then have "unat (w + 1) = unat w + unat (1::u32)"
    by (simp only: unat_add_lem [THEN iffD1])
  then have "int (unat (w + 1)) = int (unat w) + 1"
    by simp
  then show ?thesis
    by (simp only: uint_nat)
qed

text \<open>
  Claim C3. With the signature constant in \<^verbatim>\<open>edx\<close>, the entry's size in \<^verbatim>\<open>ecx\<close> and a
  cursor in \<^verbatim>\<open>ebx\<close> below \<^verbatim>\<open>e820_count\<close> (a count within the table, which has at most
  \<open>2 ^ 16\<close> entries, the range of the 16-bit cursor the handler reads), \<^verbatim>\<open>handle_15e820\<close>
  leaves in the caller's buffer at \<^verbatim>\<open>es:di\<close> the bytes of the table entry at the cursor,
  does not change the table, returns the cursor plus one when that is below
  \<^verbatim>\<open>e820_count\<close> and 0 at the last entry, the signature constant in \<^verbatim>\<open>eax\<close>, the entry's
  size in \<^verbatim>\<open>ecx\<close>, and success.
\<close>

theorem handle_15e820_entry:
  assumes "edx regs = E820_SIGNATURE" and "unat (ecx regs) = sizeof_e820entry"
    and "uint (ebx regs) < e820_count m"
    and "e820_count m \<le> int (length (e820_list m))" and "e820_count m \<le> 65536"
  shows "map (mem (fst (handle_15e820 m regs))) (far_addrs (es regs) (di regs) sizeof_e820entry)
           = entry_bytes (e820_list m ! unat (ebx regs))
    \<and> e820_list (fst (handle_15e820 m regs)) = e820_list m
    \<and> e820_count (fst (handle_15e820 m regs)) = e820_count m
    \<and> uint (ebx (snd (handle_15e820 m regs)))
        = (if uint (ebx regs) + 1 < e820_count m then uint (ebx regs) + 1 else 0)
    \<and> eax (snd (handle_15e820 m regs)) = E820_SIGNATURE
    \<and> unat (ecx (snd (handle_15e820 m regs))) = sizeof_e820entry
    \<and> \<not> failed (snd (handle_15e820 m regs))"
proof -
  have small: "uint (ebx regs) < 65536"
    using assms(3,5) by simp
  have bx: "uint (bx regs) = uint (ebx regs)" "unat (bx regs) = unat (ebx regs)"
    using small_cursor [OF small] by (simp_all add: bx_def)
  have acc: "\<not> e820_rejects m regs"
    using assms(1,2,3) by (simp add: e820_rejects_def bx)
  note res = handle_15e820_accept [OF acc]
  have buf: "map (mem (fst (handle_15e820 m regs))) (far_addrs (es regs) (di regs) sizeof_e820entry)
           = entry_bytes (e820_list m ! unat (ebx regs))"
    using memcpy_far_buffer [of "entry_bytes (e820_list m ! unat (ebx regs))" "es regs" "di regs" "mem m"]
    by (simp add: res bx length_entry_bytes sizeof_e820entry_def)
  have nxt: "uint (ebx (snd (handle_15e820 m regs)))
        = (if uint (ebx regs) + 1 < e820_count m then uint (ebx regs) + 1 else 0)"
  proof (cases "uint (ebx regs) = e820_count m - 1")
    case True
    then show ?thesis
      by (simp add: res bx set_success_def)
  next
    case False
    have "uint (ebx regs + 1) = uint (ebx regs) + 1"
      using small by (rule uint_succ)
    then show ?thesis
      using False assms(3) by (simp add: res bx set_success_def)
  qed
  have nf: "\<not> failed (snd (handle_15e820 m regs))"
    by (simp add: res failed_set_success)
  have rest: "e820_list (fst (handle_15e820 m regs)) = e820_list m"
    "e820_count (fst (handle_15e820 m regs)) = e820_count m"
    "eax (snd (handle_15e820 m regs)) = E820_SIGNATURE"
    "unat (ecx (snd (handle_15e820 m regs))) = sizeof_e820entry"
    by (simp_all add: res set_success_def E820_SIGNATURE_def sizeof_e820entry_def)
  show ?thesis
    using buf nxt nf rest by simp
qed

text \<open>Claim C3 at the last entry of a table of two.\<close>

theorem handle_15e820_entry_witness:
  "edx (e820_call 1 20) = E820_SIGNATURE \<and> unat (ecx (e820_call 1 20)) = sizeof_e820entry
   \<and> uint (ebx (e820_call 1 20)) < e820_count machine_e820
   \<and> e820_count machine_e820 \<le> int (length (e820_list machine_e820))
   \<and> e820_count machine_e820 \<le> 65536
   \<and> map (mem (fst (handle_15e820 machine_e820 (e820_call 1 20))))
         (far_addrs 0 0x500 20) = entry_bytes \<lparr>start = 0x100000, size_e = 0x700000, type_e = 1\<rparr>
   \<and> uint (ebx (snd (handle_15e820 machine_e820 (e820_call 1 20)))) = 0
   \<and> eax (snd (handle_15e820 machine_e820 (e820_call 1 20))) = 0x534D4150"
  using handle_15e820_entry [of "e820_call 1 20" machine_e820]
  by (simp add: e820_call_def machine_e820_def machine0_def regs0_def E820_SIGNATURE_def
      sizeof_e820entry_def di_def)


text \<open>
  Claim C4, as stated: every expected record size other than the entry's size, smaller
  or larger, is rejected. A call with the right signature, cursor 0 in a table of two
  and the size 24 is not rejected; it succeeds and reports 20 bytes.
\<close>

theorem handle_15e820_larger_size_counterexample:
  "unat (ecx (e820_call 0 24)) \<noteq> sizeof_e820entry
   \<and> uint (bx (e820_call 0 24)) < e820_count machine_e820
   \<and> edx (e820_call 0 24) = E820_SIGNATURE
   \<and> \<not> failed (snd (handle_15e820 machine_e820 (e820_call 0 24)))
   \<and> ecx (snd (handle_15e820 machine_e820 (e820_call 0 24))) = 20"
  by (simp add: handle_15e820_def e820_call_def machine_e820_def machine0_def regs0_def
      E820_SIGNATURE_def sizeof_e820entry_def bx_def failed_set_success Let_def)
    (simp add: set_success_def)

text \<open>
  Claim C4, amended: \<^verbatim>\<open>handle_15e820\<close> rejects exactly when the signature is wrong, or the
  cursor in \<^verbatim>\<open>bx\<close> is not below \<^verbatim>\<open>e820_count\<close>, or the expected record size is smaller
  than the entry's size; every rejection carries the one status \<^verbatim>\<open>RET_EUNSUPPORTED\<close>,
  whichever check failed.
\<close>

theorem handle_15e820_rejects_iff:
  "failed (snd (handle_15e820 m regs)) = e820_rejects m regs
   \<and> (failed (snd (handle_15e820 m regs)) \<and> ah (snd (handle_15e820 m regs)) = RET_EUNSUPPORTED)
       = e820_rejects m regs"
proof (cases "e820_rejects m regs")
  case True
  then show ?thesis
    by (simp add: handle_15e820_reject failed_set_code_fail ah_set_code_fail)
next
  case False
  then show ?thesis
    by (simp add: handle_15e820_accept failed_set_success)
qed

text \<open>Claim C4, amended, at the sizes 19, rejected, and 20, accepted.\<close>

theorem handle_15e820_rejects_iff_witness:
  "e820_rejects machine_e820 (e820_call 0 19)
   \<and> failed (snd (handle_15e820 machine_e820 (e820_call 0 19)))
   \<and> ah (snd (handle_15e820 machine_e820 (e820_call 0 19))) = RET_EUNSUPPORTED
   \<and> \<not> e820_rejects machine_e820 (e820_call 0 20)
   \<and> \<not> failed (snd (handle_15e820 machine_e820 (e820_call 0 20)))"
  using handle_15e820_rejects_iff [of machine_e820 "e820_call 0 19"]
    handle_15e820_rejects_iff [of machine_e820 "e820_call 0 20"]
  by (simp add: e820_rejects_def e820_call_def machine_e820_def machine0_def regs0_def
      E820_SIGNATURE_def sizeof_e820entry_def bx_def)

lemma entry_bytes_16: "entry_bytes e ! 16 = ucast (type_e e)"
  by (simp add: entry_bytes_def nth_append length_le_bytes) (simp add: le_bytes_def)

text \<open>
  Claim C5, as stated: with an expected record size other than the entry's size the
  handler writes nothing to the caller's buffer. With the size \<^verbatim>\<open>0xFFFFFFFF\<close> the call is
  accepted and the buffer at \<^verbatim>\<open>0:0x500\<close> is written: its byte 16, the low byte of the
  entry's type, changes from 0 to 1.
\<close>

theorem handle_15e820_larger_size_writes_counterexample:
  "unat (ecx (e820_call 0 0xFFFFFFFF)) \<noteq> sizeof_e820entry
   \<and> mem machine_e820 0x510 = 0
   \<and> mem (fst (handle_15e820 machine_e820 (e820_call 0 0xFFFFFFFF))) 0x510 = 1"
proof -
  let ?regs = "e820_call 0 0xFFFFFFFF"
  let ?e = "\<lparr>start = 0, size_e = 0x9fc00, type_e = 1\<rparr> :: e820entry"
  have acc: "\<not> e820_rejects machine_e820 ?regs"
    by (simp add: e820_rejects_def e820_call_def machine_e820_def machine0_def regs0_def
      E820_SIGNATURE_def sizeof_e820entry_def bx_def)
  have "mem (fst (handle_15e820 machine_e820 ?regs)) 0x510
          = memcpy_far 0 0x500 (entry_bytes ?e) (\<lambda>a. 0)
              (MAKE_FLATPTR 0 (ucast (0x500 + of_nat 16 :: u16)))"
    by (simp add: handle_15e820_accept [OF acc])
      (simp add: e820_call_def machine_e820_def machine0_def regs0_def bx_def di_def
        MAKE_FLATPTR_def)
  also have "\<dots> = entry_bytes ?e ! 16"
    by (rule memcpy_far_nth) (simp_all add: length_entry_bytes sizeof_e820entry_def)
  also have "\<dots> = 1"
    by (simp add: entry_bytes_16)
  finally have "mem (fst (handle_15e820 machine_e820 ?regs)) 0x510 = 1" .
  then show ?thesis
    by (simp add: e820_call_def machine_e820_def machine0_def regs0_def sizeof_e820entry_def)
qed

text \<open>
  Claim C5, amended: whenever \<^verbatim>\<open>handle_15e820\<close> fails validation (wrong signature, cursor
  in \<^verbatim>\<open>bx\<close> not below \<^verbatim>\<open>e820_count\<close>, or expected record size smaller than the entry's
  size), it returns the error status \<^verbatim>\<open>RET_EUNSUPPORTED\<close> with the failure flag and
  writes nothing: memory, and the whole machine state, are as before the call.
\<close>

theorem handle_15e820_reject_no_write:
  assumes "edx regs \<noteq> E820_SIGNATURE \<or> e820_count m \<le> uint (bx regs)
           \<or> unat (ecx regs) < sizeof_e820entry"
  shows "fst (handle_15e820 m regs) = m
    \<and> mem (fst (handle_15e820 m regs)) = mem m
    \<and> failed (snd (handle_15e820 m regs))
    \<and> ah (snd (handle_15e820 m regs)) = RET_EUNSUPPORTED"
proof -
  have "e820_rejects m regs"
    using assms by (simp add: e820_rejects_def)
  then show ?thesis
    by (simp add: handle_15e820_reject failed_set_code_fail ah_set_code_fail)
qed

text \<open>Claim C5, amended, at a cursor equal to the length of the table.\<close>

theorem handle_15e820_reject_no_write_witness:
  "e820_count machine_e820 \<le> uint (bx (e820_call 2 20))
   \<and> fst (handle_15e820 machine_e820 (e820_call 2 20)) = machine_e820
   \<and> failed (snd (handle_15e820 machine_e820 (e820_call 2 20)))
   \<and> ah (snd (handle_15e820 machine_e820 (e820_call 2 20))) = 0x86"
proof -
  have h: "e820_count machine_e820 \<le> uint (bx (e820_call 2 20))"
    by (simp add: e820_call_def machine_e820_def machine0_def regs0_def bx_def)
  then show ?thesis
    using handle_15e820_reject_no_write [of "e820_call 2 20" machine_e820]
    by (simp add: RET_EUNSUPPORTED_def)
qed

section \<open>The block move\<close>

lemma movsw_a20_enabled: "movsw_a20 True s d mm = movsw s d mm"
  by (simp add: movsw_a20_def movsw_def a20_phys_def)

lemma rep_movsw_mem_0: "rep_movsw_mem gate sb db 0 s d mm = mm"
  by (simp add: rep_movsw_mem_def rep_movsw.simps)

lemma rep_movsw_mem_gate_step:
  "c \<noteq> 0 \<Longrightarrow> rep_movsw_mem gate sb db c s d mm =
     rep_movsw_mem gate sb db (c - 1) (s + 2) (d + 2)
       (movsw_a20 gate (sb + ucast s) (db + ucast d) mm)"
  by (simp add: rep_movsw_mem_def rep_movsw.simps [of gate sb db c])

lemma rep_movsw_mem_step:
  "c \<noteq> 0 \<Longrightarrow> rep_movsw_mem True sb db c s d mm =
     rep_movsw_mem True sb db (c - 1) (s + 2) (d + 2) (movsw (sb + ucast s) (db + ucast d) mm)"
  by (simp add: rep_movsw_mem_gate_step movsw_a20_enabled)

lemma ucast_of_nat_16_32: "n < 65536 \<Longrightarrow> (ucast (of_nat n :: u16) :: u32) = of_nat n"
proof -
  assume "n < 65536"
  then have "unat (of_nat n :: u16) = n"
    by (simp add: unat_of_nat)
  moreover have "(ucast (of_nat n :: u16) :: u32) = of_nat (unat (of_nat n :: u16))"
    by simp
  ultimately show ?thesis
    by (simp only:)
qed

lemma rep_movsw_mem_copy:
  "k + unat c \<le> 32768 \<Longrightarrow>
     rep_movsw_mem True sb db c (of_nat (2 * k)) (of_nat (2 * k)) mm =
       foldl (\<lambda>mm i. movsw (sb + of_nat (2 * i)) (db + of_nat (2 * i)) mm) mm [k..<k + unat c]"
proof (induction "unat c" arbitrary: c k mm)
  case 0
  then have "c = 0"
    by (simp add: unat_eq_0)
  then show ?case
    by (simp add: rep_movsw_mem_0)
next
  case (Suc n)
  then have nz: "c \<noteq> 0"
    by auto
  have pred: "unat (c - 1) = n"
    using Suc.hyps(2) nz by (simp add: unat_minus_one)
  have k: "2 * k < 65536"
    using Suc.prems Suc.hyps(2) by simp
  have next_off: "(of_nat (2 * k) :: u16) + 2 = of_nat (2 * Suc k)"
    by simp
  have "rep_movsw_mem True sb db (c - 1) (of_nat (2 * Suc k)) (of_nat (2 * Suc k))
          (movsw (sb + of_nat (2 * k)) (db + of_nat (2 * k)) mm) =
        foldl (\<lambda>mm i. movsw (sb + of_nat (2 * i)) (db + of_nat (2 * i)) mm)
          (movsw (sb + of_nat (2 * k)) (db + of_nat (2 * k)) mm) [Suc k..<Suc k + unat (c - 1)]"
    using Suc.prems Suc.hyps(2) pred by (intro Suc.hyps(1)) simp_all
  moreover have "[k..<k + unat c] = k # [Suc k..<Suc k + unat (c - 1)]"
  proof -
    have "k < k + unat c"
      using Suc.hyps(2) by simp
    then have "[k..<k + unat c] = k # [Suc k..<k + unat c]"
      by (rule upt_conv_Cons)
    moreover have "k + unat c = Suc k + unat (c - 1)"
      using Suc.hyps(2) pred by simp
    ultimately show ?thesis
      by (simp only:)
  qed
  ultimately show ?case
    by (simp only: rep_movsw_mem_step [OF nz] next_off ucast_of_nat_16_32 [OF k] foldl_Cons)
qed

lemma rep_movsw_mem_frame:
  "(\<And>off::u16. a \<noteq> db + ucast off \<and> a \<noteq> db + ucast off + 1) \<Longrightarrow>
     rep_movsw_mem True sb db c s d mm a = mm a"
proof (induction "True" sb db c s d mm rule: rep_movsw.induct)
  case (1 ds_base es_base c s d mm)
  show ?case
  proof (cases "c = 0")
    case True
    then show ?thesis
      by (simp add: rep_movsw_mem_0)
  next
    case False
    have "rep_movsw_mem True ds_base es_base c s d mm a
            = movsw (ds_base + ucast s) (es_base + ucast d) mm a"
      using False 1 by (simp add: rep_movsw_mem_step movsw_a20_enabled)
    also have "\<dots> = mm a"
      using 1(2) [of d] by (simp add: movsw_def Let_def)
    finally show ?thesis .
  qed
qed

lemma copy_words_Suc:
  "copy_words (Suc n) src dst mm =
     movsw (src + of_nat (2 * n)) (dst + of_nat (2 * n)) (copy_words n src dst mm)"
  by (simp add: copy_words_def)

lemma copy_words_frame:
  "(\<And>i. i < n \<Longrightarrow> a \<noteq> dst + of_nat (2 * i) \<and> a \<noteq> dst + of_nat (2 * i) + 1) \<Longrightarrow>
     copy_words n src dst mm a = mm a"
proof (induction n)
  case 0
  then show ?case
    by (simp add: copy_words_def)
next
  case (Suc n)
  have "copy_words n src dst mm a = mm a"
    using Suc.prems by (intro Suc.IH) simp
  moreover have "a \<noteq> dst + of_nat (2 * n) \<and> a \<noteq> dst + of_nat (2 * n) + 1"
    using Suc.prems [of n] by simp
  ultimately show ?case
    by (simp add: copy_words_Suc movsw_def Let_def)
qed

lemma mem_set_a20: "mem (snd (set_a20 c m)) = mem m"
  by (simp add: set_a20_def outb_def Let_def)

lemma seg_ss_set_a20: "seg_ss (snd (set_a20 c m)) = seg_ss m"
  by (simp add: set_a20_def outb_def Let_def)

lemma mem_gdt_setup_cong:
  "mem m = mem m' \<Longrightarrow> seg_ss m = seg_ss m' \<Longrightarrow> mem (gdt_setup m regs) = mem (gdt_setup m' regs)"
  by (simp add: gdt_setup_def Let_def)

lemma a20_view_enabled: "a20_enabled m \<Longrightarrow> a20_view m = m"
  by (simp add: a20_view_def a20_phys_def)

lemma mem_pmode_copy_gate:
  "mem (pmode_copy m regs) =
     rep_movsw_mem (a20_enabled m) (move_src_base (a20_view m) regs)
       (move_dst_base (a20_view m) regs) (cx regs) 0 0 (mem m)"
  by (simp add: pmode_copy_def rep_movsw_mem_def Let_def split: prod.splits)

lemma mem_pmode_copy:
  "a20_enabled m \<Longrightarrow> mem (pmode_copy m regs) =
     rep_movsw_mem True (move_src_base m regs) (move_dst_base m regs) (cx regs) 0 0 (mem m)"
  by (simp add: mem_pmode_copy_gate a20_view_enabled)

lemma a20_enabled_set_a20_1: "a20_enabled (snd (set_a20 1 m))"
  by (simp add: set_a20_snd inb_def a20_enabled_def gate_test_or A20_nonzero)

lemma a20_enabled_gdt_setup: "a20_enabled (gdt_setup m regs) = a20_enabled m"
  by (simp add: a20_enabled_def inb_def ports_gdt_setup)

lemma move_bases_cong:
  "mem m = mem m' \<Longrightarrow> move_src_base m regs = move_src_base m' regs"
  "mem m = mem m' \<Longrightarrow> move_dst_base m regs = move_dst_base m' regs"
  by (simp_all add: move_src_base_def move_dst_base_def move_gdt_base_def)

lemma mem_handle_1587:
  "mem (fst (handle_1587 m regs)) =
     rep_movsw_mem True (move_src_base (gdt_setup m regs) regs)
       (move_dst_base (gdt_setup m regs) regs) (cx regs) 0 0 (mem (gdt_setup m regs))"
proof -
  let ?m2 = "gdt_setup (snd (set_a20 1 m)) regs"
  have e: "mem ?m2 = mem (gdt_setup m regs)"
    by (rule mem_gdt_setup_cong) (simp_all add: mem_set_a20 seg_ss_set_a20)
  have "a20_enabled ?m2"
    by (simp add: a20_enabled_gdt_setup a20_enabled_set_a20_1)
  then have "mem (pmode_copy ?m2 regs) =
      rep_movsw_mem True (move_src_base ?m2 regs) (move_dst_base ?m2 regs) (cx regs) 0 0 (mem ?m2)"
    by (rule mem_pmode_copy)
  then show ?thesis
    by (simp add: handle_1587_unfold mem_set_a20 e move_bases_cong [OF e])
qed


lemma le_bytes_8:
  "le_bytes 8 w = [ucast w, ucast (drop_bit 8 w), ucast (drop_bit 16 w), ucast (drop_bit 24 w),
     ucast (drop_bit 32 w), ucast (drop_bit 40 w), ucast (drop_bit 48 w), ucast (drop_bit 56 w)]"
  by (simp add: le_bytes_def upt_rec)

lemmas gdt_move_eval = gdt_setup_def SET_FARVAR64_def le_bytes_8 MAKE_FLATPTR_def GDT_DATA_def
      GDT_CODE_def GDT_LIMIT_def GDT_BASE_def machine_move_def move_call_def regs0_def
      machine0_def si_def Let_def

lemma gdt_bytes_move:
  "mem (gdt_setup machine_move (move_call c)) 0x50A = 0"
  "mem (gdt_setup machine_move (move_call c)) 0x50B = 5"
  "mem (gdt_setup machine_move (move_call c)) 0x50C = 0"
  "mem (gdt_setup machine_move (move_call c)) 0x512 = 0"
  "mem (gdt_setup machine_move (move_call c)) 0x513 = 0"
  "mem (gdt_setup machine_move (move_call c)) 0x514 = 0x10"
  "mem (gdt_setup machine_move (move_call c)) 0x517 = 0"
  "mem (gdt_setup machine_move (move_call c)) 0x51A = 0"
  "mem (gdt_setup machine_move (move_call c)) 0x51B = 0"
  "mem (gdt_setup machine_move (move_call c)) 0x51C = 0x20"
  "mem (gdt_setup machine_move (move_call c)) 0x51F = 0"
  by (simp_all add: gdt_move_eval)

lemma data_bytes_move:
  "mem (gdt_setup machine_move (move_call c)) 0x100002 = 0xAB"
  "mem (gdt_setup machine_move (move_call c)) 0x100004 = 0xCD"
  "mem (gdt_setup machine_move (move_call c)) 0x200004 = 0"
  "mem (gdt_setup machine_move (move_call c)) 0x110001 = 0x55"
  "mem (gdt_setup machine_move (move_call c)) 0x210001 = 0"
  "mem (gdt_setup machine_move (move_call c)) 0x000002 = 0"
  by (simp_all add: gdt_move_eval)

lemma move_bases:
  "move_src_base (gdt_setup machine_move (move_call c)) (move_call c) = 0x100000"
  "move_dst_base (gdt_setup machine_move (move_call c)) (move_call c) = 0x200000"
proof -
  have p: "MAKE_FLATPTR (es (move_call c)) (ucast (si (move_call c) + 8)) = 0x508"
    by (simp add: MAKE_FLATPTR_def move_call_def regs0_def si_def)
  have g: "move_gdt_base (gdt_setup machine_move (move_call c)) (move_call c) = 0x500"
    by (simp add: move_gdt_base_def lgdtw_base_def p gdt_bytes_move)
  show "move_src_base (gdt_setup machine_move (move_call c)) (move_call c) = 0x100000"
    by (simp add: move_src_base_def desc_base_def g gdt_bytes_move)
  show "move_dst_base (gdt_setup machine_move (move_call c)) (move_call c) = 0x200000"
    by (simp add: move_dst_base_def desc_base_def g gdt_bytes_move)
qed

lemma gdt_setup_ecx: "gdt_setup m (regs\<lparr>ecx := c\<rparr>) = gdt_setup m regs"
  by (simp add: gdt_setup_def si_def)

text \<open>
  What the processor reads back from the table the handler has filled in: slot 1 gives
  the table's own address as the base of the GDT, and slots 2 and 3 still hold the
  caller's descriptors.
\<close>

lemma unat_of_nat_small: "n < 2 ^ 32 \<Longrightarrow> unat (of_nat n :: u32) = n"
  by (simp add: unat_of_nat)

lemma write_bytes_frame:
  "of_nat (length bs) \<le> a - p \<Longrightarrow> length bs < 2 ^ 32 \<Longrightarrow> write_bytes p bs mm a = mm a"
proof (induction bs arbitrary: p mm)
  case Nil
  then show ?case by simp
next
  case (Cons b bs)
  have len: "unat (1 + of_nat (length bs) :: u32) = Suc (length bs)"
    using Cons.prems(2) unat_of_nat_small [of "Suc (length bs)"] by simp
  then have ge: "Suc (length bs) \<le> unat (a - p)"
    using Cons.prems(1) by (simp add: word_le_nat_alt)
  then have ne: "a \<noteq> p"
    by auto
  then have "a - p \<noteq> 0"
    by simp
  then have "unat (a - p - 1) = unat (a - p) - 1"
    by (rule unat_minus_one)
  moreover have e: "a - (p + 1) = a - p - 1"
    by simp
  ultimately have "unat (a - (p + 1)) = unat (a - p) - 1"
    by (simp only:)
  moreover have "unat (of_nat (length bs) :: u32) = length bs"
    using Cons.prems(2) by (simp add: unat_of_nat)
  ultimately have "of_nat (length bs) \<le> a - (p + 1)"
    using ge by (simp add: word_le_nat_alt)
  then have "write_bytes (p + 1) bs (mm(p := b)) a = (mm(p := b)) a"
    using Cons.prems(2) by (intro Cons.IH) simp_all
  then show ?case
    using ne by simp
qed

lemma SET_FARVAR64_frame:
  "8 \<le> a - MAKE_FLATPTR seg off \<Longrightarrow> SET_FARVAR64 seg off v mm a = mm a"
  unfolding SET_FARVAR64_def
  by (rule write_bytes_frame) (simp_all add: le_bytes_def)

lemma gdt_setup_frame:
  assumes "8 \<le> a - (gdt_loc regs + 8)" and "8 \<le> a - (gdt_loc regs + 32)"
    and "8 \<le> a - (gdt_loc regs + 40)"
  shows "mem (gdt_setup m regs) a = mem m a"
  using assms
  by (simp add: gdt_setup_def Let_def SET_FARVAR64_frame gdt_loc_def MAKE_FLATPTR_def add.assoc)

lemma gdt_setup_keeps_slots:
  assumes "j < 16"
  shows "mem (gdt_setup m regs) (gdt_loc regs + 16 + of_nat j) = mem m (gdt_loc regs + 16 + of_nat j)"
proof (rule gdt_setup_frame)
  have j: "unat (of_nat j :: u32) = j"
    using assms by (simp add: unat_of_nat)
  have "gdt_loc regs + 16 + of_nat j - (gdt_loc regs + 8) = 8 + of_nat j"
    by simp
  moreover have "unat (8 + of_nat j :: u32) = 8 + j"
    using assms by (simp add: unat_word_ariths j)
  ultimately show "8 \<le> gdt_loc regs + 16 + of_nat j - (gdt_loc regs + 8)"
    by (simp add: word_le_nat_alt)
  have "gdt_loc regs + 16 + of_nat j - (gdt_loc regs + 32) = of_nat j - 16"
    by simp
  moreover have "unat (of_nat j - 16 :: u32) = j + 2 ^ 32 - 16"
    using assms by (simp add: unat_sub_if_size word_size j)
  ultimately show "8 \<le> gdt_loc regs + 16 + of_nat j - (gdt_loc regs + 32)"
    using assms by (simp add: word_le_nat_alt)
  have "gdt_loc regs + 16 + of_nat j - (gdt_loc regs + 40) = of_nat j - 24"
    by simp
  moreover have "unat (of_nat j - 24 :: u32) = j + 2 ^ 32 - 24"
    using assms by (simp add: unat_sub_if_size word_size j)
  ultimately show "8 \<le> gdt_loc regs + 16 + of_nat j - (gdt_loc regs + 40)"
    using assms by (simp add: word_le_nat_alt)
qed


lemma write_bytes_nth:
  "i < length bs \<Longrightarrow> length bs < 2 ^ 32 \<Longrightarrow> write_bytes p bs mm (p + of_nat i) = bs ! i"
proof (induction bs arbitrary: p mm i)
  case Nil
  then show ?case by simp
next
  case (Cons b bs)
  show ?case
  proof (cases i)
    case 0
    have "unat (of_nat (length bs) :: u32) = length bs"
      using Cons.prems(2) by (intro unat_of_nat_small) simp
    moreover have "p - (p + 1) = - 1"
      by simp
    moreover have "unat (- 1 :: u32) = 4294967295"
      by (simp add: unsigned_minus_1_eq_mask mask_eq_exp_minus_1)
    ultimately have "of_nat (length bs) \<le> p - (p + 1)"
      using Cons.prems(2) by (simp add: word_le_nat_alt)
    then have "write_bytes (p + 1) bs (mm(p := b)) p = (mm(p := b)) p"
      using Cons.prems(2) by (intro write_bytes_frame) simp_all
    then show ?thesis
      using 0 by simp
  next
    case (Suc j)
    then have "write_bytes (p + 1) bs (mm(p := b)) (p + 1 + of_nat j) = bs ! j"
      using Cons.prems by (intro Cons.IH) simp_all
    then show ?thesis
      using Suc by (simp add: add.assoc)
  qed
qed

lemma mask_24: "(0x00ffffff :: u64) = mask 24"
  by (simp add: mask_eq_exp_minus_1)

lemma mask_16: "(0x0000ffff :: u64) = mask 16"
  by (simp add: mask_eq_exp_minus_1)

lemma mask_hi8: "(0xff000000 :: u64) = push_bit 24 (mask 8)"
  by (simp add: mask_eq_exp_minus_1 push_bit_eq_mult)

lemma mask_hi4: "(0x000f0000 :: u64) = push_bit 16 (mask 4)"
  by (simp add: mask_eq_exp_minus_1 push_bit_eq_mult)

lemma bit_GDT_BASE:
  "bit (GDT_BASE v) k = ((16 \<le> k \<and> k < 40 \<and> bit v (k - 16)) \<or> (56 \<le> k \<and> k < 64 \<and> bit v (k - 32)))"
  unfolding GDT_BASE_def mask_24 mask_hi8
  by (auto simp: bit_simps)

lemma bit_GDT_LIMIT:
  "bit (GDT_LIMIT v) k = ((k < 16 \<and> bit v k) \<or> (48 \<le> k \<and> k < 52 \<and> bit v (k - 32)))"
  unfolding GDT_LIMIT_def mask_16 mask_hi4
  by (auto simp: bit_simps)

lemma bit_GDT_DATA: "bit GDT_DATA k \<Longrightarrow> 40 \<le> k"
  unfolding GDT_DATA_def bit_push_bit_iff by simp


lemma gdtr_decode:
  "(ucast (ucast (drop_bit 16 (GDT_DATA OR GDT_LIMIT l OR GDT_BASE loc)) :: u8) :: u32)
     OR push_bit 8 (ucast (ucast (drop_bit 24 (GDT_DATA OR GDT_LIMIT l OR GDT_BASE loc)) :: u8))
     OR push_bit 16 (ucast (ucast (drop_bit 32 (GDT_DATA OR GDT_LIMIT l OR GDT_BASE loc)) :: u8))
   = take_bit 24 loc"
  by (rule bit_word_eqI)
    (auto simp: bit_simps bit_GDT_BASE bit_GDT_LIMIT dest: bit_GDT_DATA)

lemma le_bytes_nth: "i < n \<Longrightarrow> le_bytes n w ! i = ucast (drop_bit (8 * i) w)"
  by (simp add: le_bytes_def)

lemma mem_gdt_setup:
  "mem (gdt_setup m regs) =
     SET_FARVAR64 (es regs) (ucast (si regs) + 40)
       (GDT_DATA OR GDT_LIMIT 0xffff OR GDT_BASE (MAKE_FLATPTR (seg_ss m) 0))
       (SET_FARVAR64 (es regs) (ucast (si regs) + 32)
         (GDT_CODE OR GDT_LIMIT 0xffff OR GDT_BASE 0xf0000)
         (SET_FARVAR64 (es regs) (ucast (si regs) + 8)
           (GDT_DATA OR GDT_LIMIT 47 OR GDT_BASE (gdt_loc regs)) (mem m)))"
  by (simp add: gdt_setup_def Let_def gdt_loc_def)

lemma gdt_slot_ptrs:
  "MAKE_FLATPTR (es regs) (ucast (si regs) + 8) = gdt_loc regs + 8"
  "MAKE_FLATPTR (es regs) (ucast (si regs) + 32) = gdt_loc regs + 32"
  "MAKE_FLATPTR (es regs) (ucast (si regs) + 40) = gdt_loc regs + 40"
  by (simp_all add: gdt_loc_def MAKE_FLATPTR_def)

lemma gdt_setup_slot1:
  assumes "i < 8"
  shows "mem (gdt_setup m regs) (gdt_loc regs + 8 + of_nat i) =
           ucast (drop_bit (8 * i) (GDT_DATA OR GDT_LIMIT 47 OR GDT_BASE (gdt_loc regs)))"
proof -
  let ?a = "gdt_loc regs + 8 + of_nat i"
  have i: "unat (of_nat i :: u32) = i"
    using assms by (intro unat_of_nat_small) simp
  have "?a - (gdt_loc regs + 32) = of_nat i - 24"
    by simp
  moreover have "unat (of_nat i - 24 :: u32) = i + 2 ^ 32 - 24"
    using assms by (simp add: unat_sub_if_size word_size i)
  ultimately have f4: "8 \<le> ?a - MAKE_FLATPTR (es regs) (ucast (si regs) + 32)"
    using assms by (simp only: gdt_slot_ptrs) (simp add: word_le_nat_alt)
  have "?a - (gdt_loc regs + 40) = of_nat i - 32"
    by simp
  moreover have "unat (of_nat i - 32 :: u32) = i + 2 ^ 32 - 32"
    using assms by (simp add: unat_sub_if_size word_size i)
  ultimately have f5: "8 \<le> ?a - MAKE_FLATPTR (es regs) (ucast (si regs) + 40)"
    using assms by (simp only: gdt_slot_ptrs) (simp add: word_le_nat_alt)
  have "mem (gdt_setup m regs) ?a =
          SET_FARVAR64 (es regs) (ucast (si regs) + 8)
            (GDT_DATA OR GDT_LIMIT 47 OR GDT_BASE (gdt_loc regs)) (mem m) ?a"
    by (simp only: mem_gdt_setup SET_FARVAR64_frame [OF f5] SET_FARVAR64_frame [OF f4])
  also have "\<dots> = le_bytes 8 (GDT_DATA OR GDT_LIMIT 47 OR GDT_BASE (gdt_loc regs)) ! i"
    unfolding SET_FARVAR64_def gdt_slot_ptrs
    using assms by (intro write_bytes_nth) (simp_all add: length_le_bytes)
  finally show ?thesis
    using assms by (simp only: le_bytes_nth)
qed


lemma unat_ucast_16_32: "unat (ucast (x::u16) :: u32) = unat x"
proof -
  have "unat x < 2 ^ LENGTH(16)"
    by (rule unsigned_less)
  then have "unat x < 4294967296"
    by simp
  then show ?thesis
    by (simp add: unsigned_ucast_eq take_bit_eq_mod)
qed

lemma unat_gdt_loc: "unat (gdt_loc regs) = 16 * unat (es regs) + unat (si regs)"
proof -
  have e: "unat (es regs) < 2 ^ LENGTH(16)" and s: "unat (si regs) < 2 ^ LENGTH(16)"
    by (rule unsigned_less)+
  then have "16 * unat (es regs) + unat (si regs) < 4294967296"
    by simp
  then show ?thesis
    using e s
    by (simp add: gdt_loc_def MAKE_FLATPTR_def push_bit_eq_mult unat_word_ariths
        unat_ucast_16_32)
qed

lemma take_bit_gdt_loc: "take_bit 24 (gdt_loc regs) = gdt_loc regs"
proof -
  have "unat (es regs) < 2 ^ LENGTH(16)" and "unat (si regs) < 2 ^ LENGTH(16)"
    by (rule unsigned_less)+
  then have "unat (gdt_loc regs) < 16777216"
    by (simp add: unat_gdt_loc)
  then have "unat (take_bit 24 (gdt_loc regs)) = unat (gdt_loc regs)"
    by (simp add: unsigned_take_bit_eq take_bit_nat_eq_self)
  then show ?thesis
    by (simp only: word_unat_eq_iff)
qed

lemma si_plus_8:
  assumes "unat (si regs) \<le> 0xFFF7"
  shows "(ucast (si regs + 8) :: u32) = ucast (si regs) + 8"
proof -
  have "unat (si regs + 8) = unat (si regs) + 8"
    using assms by (simp add: unat_word_ariths)
  moreover have "unat (ucast (si regs) + 8 :: u32) = unat (si regs) + 8"
    using assms by (simp add: unat_word_ariths unat_ucast_16_32)
  ultimately have "unat (ucast (si regs + 8) :: u32) = unat (ucast (si regs) + 8 :: u32)"
    by (simp only: unat_ucast_16_32)
  then show ?thesis
    by (simp only: word_unat_eq_iff)
qed

lemma move_gdt_base_setup:
  assumes "unat (si regs) \<le> 0xFFF7"
  shows "move_gdt_base (gdt_setup m regs) regs = gdt_loc regs"
proof -
  have p: "MAKE_FLATPTR (es regs) (ucast (si regs + 8)) = gdt_loc regs + 8"
    by (simp only: si_plus_8 [OF assms] gdt_slot_ptrs)
  have b: "mem (gdt_setup m regs) (gdt_loc regs + 8 + 2) =
            ucast (drop_bit 16 (GDT_DATA OR GDT_LIMIT 47 OR GDT_BASE (gdt_loc regs)))"
    "mem (gdt_setup m regs) (gdt_loc regs + 8 + 3) =
            ucast (drop_bit 24 (GDT_DATA OR GDT_LIMIT 47 OR GDT_BASE (gdt_loc regs)))"
    "mem (gdt_setup m regs) (gdt_loc regs + 8 + 4) =
            ucast (drop_bit 32 (GDT_DATA OR GDT_LIMIT 47 OR GDT_BASE (gdt_loc regs)))"
    using gdt_setup_slot1 [of 2 m regs] gdt_setup_slot1 [of 3 m regs]
      gdt_setup_slot1 [of 4 m regs]
    by simp_all
  show ?thesis
    unfolding move_gdt_base_def lgdtw_base_def p
    by (simp only: b gdtr_decode take_bit_gdt_loc)
qed

lemma move_bases_setup:
  assumes "unat (si regs) \<le> 0xFFF7"
  shows "move_src_base (gdt_setup m regs) regs = desc_base (mem m) (gdt_loc regs + 16)"
    and "move_dst_base (gdt_setup m regs) regs = desc_base (mem m) (gdt_loc regs + 24)"
proof -
  have k: "mem (gdt_setup m regs) (gdt_loc regs + 16 + j) = mem m (gdt_loc regs + 16 + j)"
    if "j \<in> {2, 3, 4, 7, 10, 11, 12, 15}" for j :: u32
    using that gdt_setup_keeps_slots [of 2 m regs] gdt_setup_keeps_slots [of 3 m regs]
      gdt_setup_keeps_slots [of 4 m regs] gdt_setup_keeps_slots [of 7 m regs]
      gdt_setup_keeps_slots [of 10 m regs] gdt_setup_keeps_slots [of 11 m regs]
      gdt_setup_keeps_slots [of 12 m regs] gdt_setup_keeps_slots [of 15 m regs]
    by auto
  show "move_src_base (gdt_setup m regs) regs = desc_base (mem m) (gdt_loc regs + 16)"
    unfolding move_src_base_def move_gdt_base_setup [OF assms] desc_base_def
    using k [of 2] k [of 3] k [of 4] k [of 7] by simp
  show "move_dst_base (gdt_setup m regs) regs = desc_base (mem m) (gdt_loc regs + 24)"
    unfolding move_dst_base_def move_gdt_base_setup [OF assms] desc_base_def
    using k [of 10] k [of 11] k [of 12] k [of 15] by simp
qed

text \<open>
  Claim C1, amended: for every block-move request of at most \<^verbatim>\<open>0x8000\<close> words (64 KiB, the
  range of the 16-bit offsets), the memory \<^verbatim>\<open>handle_1587\<close> leaves is the memory after the
  descriptor table is filled in, with exactly \<^verbatim>\<open>cx\<close> words copied from the source region
  to the destination region in ascending address order; the two regions start at the
  bases of the caller's descriptors at offsets \<^verbatim>\<open>0x10\<close> and \<^verbatim>\<open>0x18\<close> of the table (for a
  table offset \<^verbatim>\<open>si\<close> of at most \<^verbatim>\<open>0xFFF7\<close>); with a count of 0 no word is written; the
  request succeeds.
\<close>

theorem handle_1587_copies_words:
  assumes "unat (cx regs) \<le> 0x8000"
  shows "mem (fst (handle_1587 m regs)) =
           copy_words (unat (cx regs)) (move_src_base (gdt_setup m regs) regs)
             (move_dst_base (gdt_setup m regs) regs) (mem (gdt_setup m regs))
    \<and> (unat (si regs) \<le> 0xFFF7 \<longrightarrow>
         move_src_base (gdt_setup m regs) regs = desc_base (mem m) (gdt_loc regs + 0x10)
         \<and> move_dst_base (gdt_setup m regs) regs = desc_base (mem m) (gdt_loc regs + 0x18))
    \<and> mem (fst (handle_1587 m (regs\<lparr>ecx := 0\<rparr>))) = mem (gdt_setup m regs)
    \<and> \<not> failed (snd (handle_1587 m regs))"
proof (intro conjI impI)
  have "rep_movsw_mem True (move_src_base (gdt_setup m regs) regs)
          (move_dst_base (gdt_setup m regs) regs) (cx regs) (of_nat (2 * 0)) (of_nat (2 * 0))
          (mem (gdt_setup m regs)) =
        foldl (\<lambda>mm i. movsw (move_src_base (gdt_setup m regs) regs + of_nat (2 * i))
                          (move_dst_base (gdt_setup m regs) regs + of_nat (2 * i)) mm)
          (mem (gdt_setup m regs)) [0..<0 + unat (cx regs)]"
    using assms by (intro rep_movsw_mem_copy) simp
  then show "mem (fst (handle_1587 m regs)) =
           copy_words (unat (cx regs)) (move_src_base (gdt_setup m regs) regs)
             (move_dst_base (gdt_setup m regs) regs) (mem (gdt_setup m regs))"
    by (simp add: mem_handle_1587 copy_words_def)
  show "move_src_base (gdt_setup m regs) regs = desc_base (mem m) (gdt_loc regs + 0x10)"
    if "unat (si regs) \<le> 0xFFF7"
    using that by (rule move_bases_setup)
  show "move_dst_base (gdt_setup m regs) regs = desc_base (mem m) (gdt_loc regs + 0x18)"
    if "unat (si regs) \<le> 0xFFF7"
    using that by (rule move_bases_setup)
  show "mem (fst (handle_1587 m (regs\<lparr>ecx := 0\<rparr>))) = mem (gdt_setup m regs)"
    by (simp add: mem_handle_1587 gdt_setup_ecx cx_def rep_movsw_mem_0)
  show "\<not> failed (snd (handle_1587 m regs))"
    by (simp add: handle_1587_def Let_def set_code_success_def failed_set_success
        split: prod.splits)
qed

text \<open>
  Claim C1, amended, at a count of 2: the second word of the source region arrives in the
  destination region, the third does not.
\<close>

theorem handle_1587_copies_words_witness:
  "unat (cx (move_call 2)) \<le> 0x8000 \<and> unat (si (move_call 2)) \<le> 0xFFF7
   \<and> desc_base (mem machine_move) (gdt_loc (move_call 2) + 0x10) = 0x100000
   \<and> desc_base (mem machine_move) (gdt_loc (move_call 2) + 0x18) = 0x200000
   \<and> mem machine_move 0x100002 = 0xAB \<and> mem machine_move 0x100004 = 0xCD
   \<and> mem (fst (handle_1587 machine_move (move_call 2))) 0x200002 = 0xAB
   \<and> mem (fst (handle_1587 machine_move (move_call 2))) 0x200004 = 0"
proof -
  have c: "unat (cx (move_call 2)) = 2" and s: "unat (si (move_call 2)) = 0x500"
    by (simp_all add: cx_def si_def move_call_def regs0_def)
  note inst = handle_1587_copies_words [of "move_call 2" machine_move]
  have bases: "desc_base (mem machine_move) (gdt_loc (move_call 2) + 0x10) = 0x100000"
    "desc_base (mem machine_move) (gdt_loc (move_call 2) + 0x18) = 0x200000"
    using inst by (simp_all add: c s move_bases)
  have "mem (fst (handle_1587 machine_move (move_call 2))) =
          copy_words (Suc (Suc 0)) 0x100000 0x200000 (mem (gdt_setup machine_move (move_call 2)))"
    using inst by (simp add: c move_bases numeral_2_eq_2)
  then have "mem (fst (handle_1587 machine_move (move_call 2))) 0x200002 = 0xAB"
    and "mem (fst (handle_1587 machine_move (move_call 2))) 0x200004 = 0"
    by (simp_all add: copy_words_Suc copy_words_def movsw_def data_bytes_move)
  then show ?thesis
    using bases by (simp add: c s) (simp add: machine_move_def)
qed

lemma unat_dst_window:
  assumes "n < 65536"
  shows "unat (0x200000 + of_nat n :: u32) = 2097152 + n"
    and "unat (0x200000 + of_nat n + 1 :: u32) = 2097153 + n"
proof -
  have n: "unat (of_nat n :: u32) = n"
    using assms by (simp add: unat_of_nat)
  show a: "unat (0x200000 + of_nat n :: u32) = 2097152 + n"
    using assms by (simp add: unat_word_ariths n)
  show "unat (0x200000 + of_nat n + 1 :: u32) = 2097153 + n"
    using assms by (simp add: unat_word_ariths n)
qed

lemma outside_dst_window:
  assumes "n < 65536" and "unat (a::u32) < 2097152 \<or> 2162688 < unat a"
  shows "a \<noteq> 0x200000 + of_nat n \<and> a \<noteq> 0x200000 + of_nat n + 1"
  using assms unat_dst_window [OF assms(1)] by auto

text \<open>
  Claim C1, as stated for every count: with \<^verbatim>\<open>cx = 0x8001\<close> the offsets \<^verbatim>\<open>si\<close> and \<^verbatim>\<open>di\<close>
  wrap to 0 after \<^verbatim>\<open>0x8000\<close> words, so the last word is moved from offset 0 to offset 0
  once more, and the word at offset \<^verbatim>\<open>0x10000\<close> of the source region (high byte
  \<^verbatim>\<open>0x55\<close> at \<^verbatim>\<open>0x110001\<close>) never reaches the destination region (\<^verbatim>\<open>0x210001\<close> stays 0):
  the memory is not that of \<^verbatim>\<open>0x8001\<close> words copied in ascending order.
\<close>

theorem handle_1587_wraps_counterexample:
  "cx (move_call 0x8001) = 0x8001
   \<and> mem (gdt_setup machine_move (move_call 0x8001)) 0x110001 = 0x55
   \<and> mem (fst (handle_1587 machine_move (move_call 0x8001))) 0x210001 = 0
   \<and> mem (fst (handle_1587 machine_move (move_call 0x8001))) \<noteq>
       copy_words (unat (cx (move_call 0x8001)))
         (move_src_base (gdt_setup machine_move (move_call 0x8001)) (move_call 0x8001))
         (move_dst_base (gdt_setup machine_move (move_call 0x8001)) (move_call 0x8001))
         (mem (gdt_setup machine_move (move_call 0x8001)))"
proof -
  let ?regs = "move_call 0x8001"
  let ?mm = "mem (gdt_setup machine_move ?regs)"
  have c: "cx ?regs = 0x8001"
    by (simp add: cx_def move_call_def regs0_def)
  have code: "mem (fst (handle_1587 machine_move ?regs)) 0x210001 = 0"
  proof -
    have "rep_movsw_mem True 0x100000 0x200000 (cx ?regs) 0 0 ?mm 0x210001 = ?mm 0x210001"
    proof (rule rep_movsw_mem_frame)
      fix off :: u16
      define n where "n = unat off"
      have "n < 2 ^ LENGTH(16)"
        unfolding n_def by (rule unsigned_less)
      then have n: "n < 65536"
        by simp
      have e: "(ucast off :: u32) = of_nat n"
        by (simp add: n_def)
      have "0x210001 \<noteq> 0x200000 + (of_nat n :: u32)
            \<and> 0x210001 \<noteq> 0x200000 + (of_nat n :: u32) + 1"
        using n by (rule outside_dst_window) simp
      then show "0x210001 \<noteq> 0x200000 + (ucast off :: u32)
                 \<and> 0x210001 \<noteq> 0x200000 + (ucast off :: u32) + 1"
        unfolding e .
    qed
    then show ?thesis
      by (simp add: mem_handle_1587 move_bases data_bytes_move)
  qed
  have spec: "copy_words (unat (cx ?regs)) 0x100000 0x200000 ?mm 0x210001 = 0x55"
  proof -
    have "copy_words 32768 0x100000 0x200000 ?mm 0x110001 = ?mm 0x110001"
    proof (rule copy_words_frame)
      fix i :: nat
      assume "i < 32768"
      then have "2 * i < 65536"
        by simp
      then show "0x110001 \<noteq> 0x200000 + (of_nat (2 * i) :: u32)
                 \<and> 0x110001 \<noteq> 0x200000 + (of_nat (2 * i) :: u32) + 1"
        by (rule outside_dst_window) simp
    qed
    then have inner: "copy_words 32768 0x100000 0x200000 ?mm 0x110001 = 0x55"
      by (simp add: data_bytes_move)
    have u: "unat (cx ?regs) = Suc 32768"
      by (simp add: c)
    have "copy_words (unat (cx ?regs)) 0x100000 0x200000 ?mm 0x210001 =
            movsw (0x100000 + of_nat (2 * 32768)) (0x200000 + of_nat (2 * 32768))
              (copy_words 32768 0x100000 0x200000 ?mm) 0x210001"
      by (simp only: u copy_words_Suc)
    also have "\<dots> = copy_words 32768 0x100000 0x200000 ?mm 0x110001"
      by (simp add: movsw_def)
    finally show ?thesis
      by (simp only: inner)
  qed
  have "mem (fst (handle_1587 machine_move ?regs)) \<noteq>
          copy_words (unat (cx ?regs)) 0x100000 0x200000 ?mm"
  proof
    assume "mem (fst (handle_1587 machine_move ?regs)) =
              copy_words (unat (cx ?regs)) 0x100000 0x200000 ?mm"
    then have "mem (fst (handle_1587 machine_move ?regs)) 0x210001 =
                 copy_words (unat (cx ?regs)) 0x100000 0x200000 ?mm 0x210001"
      by simp
    then show False
      by (simp only: code spec) simp
  qed
  then show ?thesis
    using c code by (simp add: move_bases data_bytes_move)
qed

section \<open>The gate around the block move\<close>

lemma gate_off_move: "\<not> a20_enabled (gdt_setup machine_move (move_call c))"
  by (simp only: a20_enabled_gdt_setup)
    (simp add: a20_enabled_def inb_def machine_move_def machine0_def)

lemma view_off_move:
  "mem (a20_view (gdt_setup machine_move (move_call c))) a =
     mem (gdt_setup machine_move (move_call c)) (a AND NOT 0x100000)"
  by (simp add: a20_view_def a20_phys_def gate_off_move)

lemma move_bases_gate_off:
  "move_src_base (a20_view (gdt_setup machine_move (move_call c))) (move_call c) = 0x100000"
  "move_dst_base (a20_view (gdt_setup machine_move (move_call c))) (move_call c) = 0x200000"
proof -
  have p: "MAKE_FLATPTR (es (move_call c)) (ucast (si (move_call c) + 8)) = 0x508"
    by (simp add: MAKE_FLATPTR_def move_call_def regs0_def si_def)
  have g: "move_gdt_base (a20_view (gdt_setup machine_move (move_call c))) (move_call c) = 0x500"
    by (simp add: move_gdt_base_def lgdtw_base_def p view_off_move gdt_bytes_move)
  show "move_src_base (a20_view (gdt_setup machine_move (move_call c))) (move_call c) = 0x100000"
    by (simp add: move_src_base_def desc_base_def g view_off_move gdt_bytes_move)
  show "move_dst_base (a20_view (gdt_setup machine_move (move_call c))) (move_call c) = 0x200000"
    by (simp add: move_dst_base_def desc_base_def g view_off_move gdt_bytes_move)
qed

lemma cx_move_call_2: "cx (move_call 2) = 2"
  by (simp add: cx_def move_call_def regs0_def)

text \<open>
  Two words on \<open>machine_move\<close>, whose gate is disabled: the assembly block alone fetches
  the second word through address 2; the handler, which enables the gate first, fetches
  it from \<^verbatim>\<open>0x100002\<close>.
\<close>

lemma pmode_copy_gate_off:
  "mem (pmode_copy (gdt_setup machine_move (move_call 2)) (move_call 2)) 0x200002 = 0"
  by (simp add: mem_pmode_copy_gate gate_off_move move_bases_gate_off cx_move_call_2
      rep_movsw_mem_gate_step rep_movsw_mem_0 movsw_a20_def a20_phys_def data_bytes_move)

lemma handle_1587_gate_on:
  "mem (fst (handle_1587 machine_move (move_call 2))) 0x200002 = 0xAB"
  by (simp add: mem_handle_1587 move_bases cx_move_call_2 rep_movsw_mem_step rep_movsw_mem_0
      movsw_def data_bytes_move)

lemma mem_handle_1587_any_gate:
  "mem (fst (handle_1587 (snd (set_a20 c m)) regs)) = mem (fst (handle_1587 m regs))"
proof -
  have e: "mem (gdt_setup (snd (set_a20 c m)) regs) = mem (gdt_setup m regs)"
    by (rule mem_gdt_setup_cong) (simp_all add: mem_set_a20 seg_ss_set_a20)
  show ?thesis
    by (simp add: mem_handle_1587 e move_bases_cong [OF e])
qed

text \<open>
  Claim C2. Whatever the gate state at the call, \<^verbatim>\<open>handle_1587\<close> first enables the gate:
  the memory it leaves is that of the copy made through the enabled gate, and it is the
  same whether the gate was set or cleared just before the call; the first \<^verbatim>\<open>set_a20(1)\<close>
  leaves the gate enabled, it is still enabled when the copy is done, and the handler is
  these steps followed by \<^verbatim>\<open>set_a20\<close> with the saved state. On return the gate state is the
  one at the call, and so is every bit of the register (and every other port). The
  enabling shows: on \<open>machine_move\<close>, where the gate is disabled at the call, the copy
  without it would leave 0 at \<^verbatim>\<open>0x200002\<close>, and the handler leaves \<^verbatim>\<open>0xAB\<close>.
\<close>

theorem handle_1587_gate_restored:
  "mem (fst (handle_1587 m regs)) =
     rep_movsw_mem True (move_src_base (gdt_setup m regs) regs)
       (move_dst_base (gdt_setup m regs) regs) (cx regs) 0 0 (mem (gdt_setup m regs))
   \<and> mem (fst (handle_1587 (snd (set_a20 c m)) regs)) = mem (fst (handle_1587 m regs))
   \<and> a20_enabled (snd (set_a20 1 m))
   \<and> a20_enabled (pmode_copy (gdt_setup (snd (set_a20 1 m)) regs) regs)
   \<and> fst (handle_1587 m regs) =
       snd (set_a20 (fst (set_a20 1 m)) (pmode_copy (gdt_setup (snd (set_a20 1 m)) regs) regs))
   \<and> a20_enabled (fst (handle_1587 m regs)) = a20_enabled m
   \<and> inb PORT_A20 (fst (handle_1587 m regs)) = inb PORT_A20 m
   \<and> ports (fst (handle_1587 m regs)) = ports m
   \<and> \<not> a20_enabled (gdt_setup machine_move (move_call 2))
   \<and> mem (pmode_copy (gdt_setup machine_move (move_call 2)) (move_call 2)) 0x200002 = 0
   \<and> mem (fst (handle_1587 machine_move (move_call 2))) 0x200002 = 0xAB"
  apply (intro conjI)
  subgoal by (rule mem_handle_1587)
  subgoal by (rule mem_handle_1587_any_gate)
  subgoal by (rule a20_enabled_set_a20_1)
  subgoal by (simp add: set_a20_snd inb_def a20_enabled_def gate_test_or A20_nonzero
      ports_pmode_copy ports_gdt_setup)
  subgoal by (rule handle_1587_unfold)
  subgoal by (simp add: a20_enabled_def inb_def handle_1587_ports)
  subgoal by (simp add: inb_def handle_1587_ports)
  subgoal by (rule handle_1587_ports)
  subgoal by (rule gate_off_move)
  subgoal by (rule pmode_copy_gate_off)
  subgoal by (rule handle_1587_gate_on)
  done

end
